theory Spec2Isabelle
  imports Main "HOL-Library.Word" "HOL-Library.Signed_Division" "HOL-Library.Sublist"
    "HOL-Library.Char_ord" "HOL-Library.List_Lexorder"
begin

section \<open>Outcomes of Go calls\<close>

text \<open>
  A Go call either returns or panics.  \<open>Panic\<close> stands for a run-time panic raised by the
  language itself (an index or a slice bound out of range), \<open>Done\<close> for a normal return.
\<close>

datatype 'a outcome = Panic | Done 'a

section \<open>gen.Builder (src/gen/builder.go)\<close>

subsection \<open>Nodes and the heap of object maps\<close>

text \<open>
  Modelled from the spec: the \<open>Node\<close> types of package gen are declared outside
  src/gen/builder.go.  The cases are those of the value model of the spec (section 3) together
  with \<open>Key\<close>, which builder.go pushes on the stack.  A gen.Object is a Go map, that is a
  reference: \<open>ObjectNode (Some a)\<close> refers to the map stored at address \<open>a\<close>,
  \<open>ObjectNode None\<close> is the nil map.  gen.EmptyArray is \<open>ArrayNode []\<close>.
\<close>

datatype node =
    NilNode
  | BoolNode bool
  | IntNode "64 word"
  | FloatNode string
  | StringNode string
  | TimeNode "64 word"
  | KeyNode string
  | ArrayNode "node list"
  | ObjectNode "nat option"

definition EmptyArray :: node where
  "EmptyArray = ArrayNode []"

text \<open>
  The maps that Object nodes refer to live in a heap: \<open>cells h a\<close> is the map at address
  \<open>a\<close> and \<open>fresh h\<close> the next address that \<open>Object{}\<close> allocates.
\<close>

record heap =
  cells :: "nat \<Rightarrow> (string \<rightharpoonup> node)"
  fresh :: nat

definition new_object :: "heap \<Rightarrow> node \<times> heap" where
  "new_object h = (ObjectNode (Some (fresh h)),
     h\<lparr>cells := (cells h)(fresh h := Map.empty), fresh := Suc (fresh h)\<rparr>)"

text \<open>The assignment \<open>obj[k] = v\<close> on the map at address \<open>a\<close>.\<close>

definition map_store :: "heap \<Rightarrow> nat \<Rightarrow> string \<Rightarrow> node \<Rightarrow> heap" where
  "map_store h a k v = h\<lparr>cells := (cells h)(a := (cells h a)(k \<mapsto> v))\<rparr>"

record Builder =
  stack :: "node list"
  starts :: "int list"

definition empty_Builder :: Builder where
  "empty_Builder = \<lparr>stack = [], starts = []\<rparr>"

text \<open>The two errors that Object, Array and Value return.\<close>

datatype builder_error = KeyInArray | NoKeyInObject

definition error_text :: "builder_error \<Rightarrow> string" where
  "error_text e = (case e of
      KeyInArray \<Rightarrow> ''can not use a key when pushing to an array''
    | NoKeyInObject \<Rightarrow> ''must have a key when pushing to an object'')"

subsection \<open>The operations\<close>

text \<open>
  Reset: both branches leave the two slices empty (they differ in the capacity kept, which is
  not modelled).
\<close>

definition Reset :: "heap \<times> Builder \<Rightarrow> heap \<times> Builder" where
  "Reset hb = (case hb of (h, b) \<Rightarrow> (h, b\<lparr>stack := [], starts := []\<rparr>))"

text \<open>
  \<open>obj, _ := b.stack[len(b.stack)-1].(Object); obj != nil\<close> followed by \<open>obj[k] = v\<close>.
  The index expression panics on an empty stack.
\<close>

definition attach_top :: "heap \<Rightarrow> Builder \<Rightarrow> string \<Rightarrow> node \<Rightarrow> heap outcome" where
  "attach_top h b k v =
     (if stack b = [] then Panic
      else (case last (stack b) of
              ObjectNode (Some a) \<Rightarrow> Done (map_store h a k v)
            | _ \<Rightarrow> Done h))"

text \<open>The variadic parameter \<open>key ...string\<close> is the list of the keys passed.\<close>

definition Object :: "heap \<times> Builder \<Rightarrow> string list \<Rightarrow> (builder_error option \<times> heap \<times> Builder) outcome" where
  "Object hb key = (case hb of (h0, b) \<Rightarrow>
     (case new_object h0 of (newObj, h) \<Rightarrow>
       (if 0 < length key then
          (if length (starts b) = 0 \<or> 0 \<le> last (starts b) then Done (Some KeyInArray, h, b)
           else (case attach_top h b (key ! 0) newObj of
                   Panic \<Rightarrow> Panic
                 | Done h' \<Rightarrow>
                     Done (None, h', b\<lparr>starts := starts b @ [-1], stack := stack b @ [newObj]\<rparr>)))
        else if 0 < length (starts b) \<and> last (starts b) < 0 then Done (Some NoKeyInObject, h, b)
        else Done (None, h, b\<lparr>starts := starts b @ [-1], stack := stack b @ [newObj]\<rparr>))))"

definition Array :: "heap \<times> Builder \<Rightarrow> string list \<Rightarrow> (builder_error option \<times> heap \<times> Builder) outcome" where
  "Array hb key = (case hb of (h, b) \<Rightarrow>
     (if 0 < length key then
        (if length (starts b) = 0 \<or> 0 \<le> last (starts b) then Done (Some KeyInArray, h, b)
         else (let stk = stack b @ [KeyNode (key ! 0)] in
               Done (None, h, b\<lparr>starts := starts b @ [int (length stk)],
                                stack := stk @ [EmptyArray]\<rparr>)))
      else if 0 < length (starts b) \<and> last (starts b) < 0 then Done (Some NoKeyInObject, h, b)
      else Done (None, h, b\<lparr>starts := starts b @ [int (length (stack b))],
                             stack := stack b @ [EmptyArray]\<rparr>)))"

definition Value :: "heap \<times> Builder \<Rightarrow> node \<Rightarrow> string list \<Rightarrow> (builder_error option \<times> heap \<times> Builder) outcome" where
  "Value hb v key = (case hb of (h, b) \<Rightarrow>
     (if 0 < length key then
        (if length (starts b) = 0 \<or> 0 \<le> last (starts b) then Done (Some KeyInArray, h, b)
         else (case attach_top h b (key ! 0) v of
                 Panic \<Rightarrow> Panic
               | Done h' \<Rightarrow> Done (None, h', b)))
      else if 0 < length (starts b) \<and> last (starts b) < 0 then Done (Some NoKeyInObject, h, b)
      else Done (None, h, b\<lparr>stack := stack b @ [v]\<rparr>)))"

text \<open>
  The collapse at the end of the array branch of Pop: with the array \<open>a\<close> on top of the
  stack \<open>stk\<close>, a Key directly below it and a non-nil Object below the Key, the array is
  stored in the object under the key and the two top slots are cut off.
\<close>

definition collapse :: "heap \<Rightarrow> node list \<Rightarrow> node \<Rightarrow> heap \<times> node list" where
  "collapse h stk a =
     (if 2 < length stk then
        (case stk ! (length stk - 2) of
           KeyNode k \<Rightarrow>
             (case stk ! (length stk - 3) of
                ObjectNode (Some ad) \<Rightarrow> (map_store h ad k a, take (length stk - 2) stk)
              | _ \<Rightarrow> (h, stk))
         | _ \<Rightarrow> (h, stk))
      else (h, stk))"

text \<open>
  Pop.  In the array branch \<open>make([]Node, size)\<close> and the slice expression
  \<open>b.stack[start:len(b.stack)]\<close> panic when \<open>start\<close> exceeds the length of the stack.
\<close>

definition Pop :: "heap \<times> Builder \<Rightarrow> (heap \<times> Builder) outcome" where
  "Pop hb = (case hb of (h, b) \<Rightarrow>
     (if 0 < length (starts b) then
        (let start = last (starts b) in
         if 0 \<le> start then
           (let start = start + 1 in
            if int (length (stack b)) < start then Panic
            else
              (let a = ArrayNode (drop (nat start) (stack b));
                   stk = (take (nat start) (stack b))[nat (start - 1) := a]
               in (case collapse h stk a of (h', stk') \<Rightarrow>
                     Done (h', b\<lparr>stack := stk', starts := butlast (starts b)\<rparr>))))
         else Done (h, b\<lparr>starts := butlast (starts b)\<rparr>))
      else Done (h, b)))"

text \<open>PopAll: the loop \<open>for 0 < len(b.starts) { b.Pop() }\<close>; a panic of Pop ends it.\<close>

function PopAll :: "heap \<times> Builder \<Rightarrow> (heap \<times> Builder) outcome" where
  "PopAll hb =
     (if 0 < length (starts (snd hb)) then
        (case Pop hb of Panic \<Rightarrow> Panic | Done hb' \<Rightarrow> PopAll hb')
      else Done hb)"
  by pat_completeness auto
termination
proof (relation "measure (\<lambda>hb. length (starts (snd hb)))")
  show "wf (measure (\<lambda>hb. length (starts (snd hb))))" by simp
next
  fix hb hb' :: "heap \<times> Builder"
  assume ne: "0 < length (starts (snd hb))" and p: "Pop hb = Done hb'"
  obtain h b where hb: "hb = (h, b)" by (cases hb)
  obtain h' b' where hb': "hb' = (h', b')" by (cases hb')
  from ne hb have "starts b \<noteq> []" by simp
  with p hb hb' have "starts b' = butlast (starts b)"
    by (auto simp: Pop_def Let_def split: if_splits prod.splits)
  with ne hb hb' show "(hb', hb) \<in> measure (\<lambda>hb. length (starts (snd hb)))" by simp
qed

definition Result :: "Builder \<Rightarrow> node" where
  "Result b = (if 0 < length (stack b) then stack b ! 0 else NilNode)"

text \<open>
  The states a Builder can be in.  Its fields are private, so every state is reached from the
  zero Builder by the exported operations.  An open array frame keeps gen.EmptyArray at its
  marker slot until it is popped, the markers of the open array frames increase, and the stack
  is not empty while a frame is open.
\<close>

definition array_marker_ok :: "node list \<Rightarrow> int \<Rightarrow> bool" where
  "array_marker_ok stk s = (s < 0 \<or> (nat s < length stk \<and> stk ! nat s = EmptyArray))"

definition builder_inv :: "Builder \<Rightarrow> bool" where
  "builder_inv b =
     ((starts b = [] \<or> stack b \<noteq> [])
      \<and> list_all (array_marker_ok (stack b)) (starts b)
      \<and> sorted_wrt (<) (filter (\<lambda>s. 0 \<le> s) (starts b)))"

inductive reachable :: "heap \<times> Builder \<Rightarrow> bool" where
  zero: "reachable (h, empty_Builder)"
| reset: "reachable hb \<Longrightarrow> reachable (Reset hb)"
| object: "reachable hb \<Longrightarrow> Object hb key = Done (e, hb') \<Longrightarrow> reachable hb'"
| array: "reachable hb \<Longrightarrow> Array hb key = Done (e, hb') \<Longrightarrow> reachable hb'"
| val: "reachable hb \<Longrightarrow> Value hb v key = Done (e, hb') \<Longrightarrow> reachable hb'"
| pop: "reachable hb \<Longrightarrow> Pop hb = Done hb' \<Longrightarrow> reachable hb'"
| heap_write: "reachable (h, b) \<Longrightarrow> reachable (h', b)"

text \<open>The frame kinds the claims speak of.\<close>

definition in_array :: "Builder \<Rightarrow> bool" where
  "in_array b = (starts b \<noteq> [] \<and> 0 \<le> last (starts b))"

definition in_object :: "Builder \<Rightarrow> bool" where
  "in_object b = (starts b \<noteq> [] \<and> last (starts b) < 0)"

definition returns_error :: "(builder_error option \<times> heap \<times> Builder) outcome \<Rightarrow> bool" where
  "returns_error r = (case r of Panic \<Rightarrow> False | Done (e, hb) \<Rightarrow> e \<noteq> None)"

definition panics :: "'a outcome \<Rightarrow> bool" where
  "panics r = (case r of Panic \<Rightarrow> True | Done x \<Rightarrow> False)"


text \<open>
  The misuse of keys that Object, Array and Value answer with an error: a key where there is
  no open frame or the innermost open frame is an array, or no key where the innermost open
  frame is an object.
\<close>

definition key_misuse :: "Builder \<Rightarrow> string list \<Rightarrow> bool" where
  "key_misuse b key =
     ((key \<noteq> [] \<and> (starts b = [] \<or> in_array b)) \<or> (key = [] \<and> in_object b))"

text \<open>
  The stack layout of an array opened with a key: a Key directly below the marker slot
  \<open>m\<close> and a non-nil Object directly below the Key.
\<close>

definition keyed_parent :: "node list \<Rightarrow> nat \<Rightarrow> (string \<times> nat) option" where
  "keyed_parent stk m =
     (if 2 \<le> m then
        (case stk ! (m - 1) of
           KeyNode k \<Rightarrow> (case stk ! (m - 2) of ObjectNode (Some ad) \<Rightarrow> Some (k, ad) | _ \<Rightarrow> None)
         | _ \<Rightarrow> None)
      else None)"

text \<open>Concrete states used to run the operations.\<close>

definition heap0 :: heap where
  "heap0 = \<lparr>cells = (\<lambda>a. Map.empty), fresh = 0\<rparr>"

definition heap1 :: heap where
  "heap1 = \<lparr>cells = (\<lambda>a. Map.empty), fresh = 1\<rparr>"

definition builder1 :: Builder where
  "builder1 = \<lparr>stack = [ObjectNode (Some 0), KeyNode ''k'', ArrayNode [], IntNode 1],
               starts = [-1, 2]\<rparr>"

text \<open>
  A sequence of calls on a Builder.  The caller may go on after an error (the state is then
  unchanged); the errors returned are collected.  A panic ends the run.
\<close>

datatype builder_call =
    call_Object "string list"
  | call_Array "string list"
  | call_Value node "string list"
  | call_Pop

fun run :: "builder_call list \<Rightarrow> heap \<times> Builder \<Rightarrow> (builder_error option list \<times> heap \<times> Builder) outcome" where
  "run [] hb = Done ([], hb)"
| "run (c # cs) hb =
     (case (case c of
              call_Object key \<Rightarrow> Object hb key
            | call_Array key \<Rightarrow> Array hb key
            | call_Value v key \<Rightarrow> Value hb v key
            | call_Pop \<Rightarrow> (case Pop hb of Panic \<Rightarrow> Panic | Done hb' \<Rightarrow> Done (None, hb'))) of
        Panic \<Rightarrow> Panic
      | Done (e, hb') \<Rightarrow>
          (case run cs hb' of Panic \<Rightarrow> Panic | Done (es, hb'') \<Rightarrow> Done (e # es, hb'')))"

text \<open>
  The calls that build \<open>{"a":{},"k":[1]}\<close>: the object, its member a (an empty object, closed
  at once), and its member k, an array with the element 1.
\<close>

definition nested_calls :: "builder_call list" where
  "nested_calls = [call_Object [], call_Object [''a''], call_Pop,
                   call_Array [''k''], call_Value (IntNode 1) [], call_Pop]"

section \<open>Integers and text of the Go library\<close>

text \<open>
  Go's \<open>int64\<close> is a 64-bit word: \<open>+\<close>, \<open>-\<close>, \<open>*\<close> and unary minus wrap around,
  comparison is signed, and \<open>/\<close> truncates towards zero.
\<close>

type_synonym int64 = "64 word"

definition int64_div :: "int64 \<Rightarrow> int64 \<Rightarrow> int64" where
  "int64_div a b = word_of_int (sint a sdiv sint b)"

definition Second :: int64 where
  "Second = 1000000000"

text \<open>Decimal digits of a natural number, as strconv and the verb \<open>%d\<close> print them.\<close>

definition digit_char :: "nat \<Rightarrow> char" where
  "digit_char d = ''0123456789'' ! d"

fun digits :: "nat \<Rightarrow> string" where
  "digits n = (if n < 10 then [digit_char n] else digits (n div 10) @ [digit_char (n mod 10)])"

declare digits.simps [simp del]

text \<open>strconv.FormatInt(i, 10), strconv.AppendInt and the verb \<open>%d\<close>.\<close>

definition FormatInt :: "int \<Rightarrow> string" where
  "FormatInt i = (if i < 0 then ''-'' @ digits (nat (- i)) else digits (nat i))"

definition FormatUint :: "nat \<Rightarrow> string" where
  "FormatUint n = digits n"

text \<open>
  The verb \<open>%09d\<close>: at least nine characters, padded with zeros after the sign.
  More digits than the width are printed in full.
\<close>

definition zero_pad :: "nat \<Rightarrow> string \<Rightarrow> string" where
  "zero_pad w s = replicate (w - length s) (CHR ''0'') @ s"

definition Sprintf_09d :: "int \<Rightarrow> string" where
  "Sprintf_09d i = (if i < 0 then ''-'' @ zero_pad 8 (digits (nat (- i)))
                    else zero_pad 9 (digits (nat i)))"

text \<open>fmt.Sprintf("%d.%09d", a, b) on two int64 values.\<close>

definition Sprintf_d_dot_09d :: "int64 \<Rightarrow> int64 \<Rightarrow> string" where
  "Sprintf_d_dot_09d a b = FormatInt (sint a) @ ''.'' @ Sprintf_09d (sint b)"

text \<open>
  A float32 or float64 value.  strconv.AppendFloat(buf, f, 'g', -1, bits) prints \<open>NaN\<close>,
  \<open>+Inf\<close> and \<open>-Inf\<close> for the three values that are no numbers; a finite value is given
  here by the shortest decimal text that strconv prints for it.
\<close>

datatype gofloat = NaN | PosInf | NegInf | Finite string

definition AppendFloat :: "string \<Rightarrow> gofloat \<Rightarrow> string" where
  "AppendFloat b f = b @ (case f of NaN \<Rightarrow> ''NaN'' | PosInf \<Rightarrow> ''+Inf'' | NegInf \<Rightarrow> ''-Inf''
                            | Finite s \<Rightarrow> s)"

text \<open>
  A time.Time value, through the two methods the encoders call: \<open>UnixNano\<close>, the
  nanoseconds since the epoch as an int64, and \<open>Format\<close>, the text for a layout.
\<close>

datatype gotime = Time (UnixNano: int64) (Format: "string \<Rightarrow> string")

section \<open>gd.Time (src/gd/time.go)\<close>

text \<open>
  buildString appends to a strings.Builder, modelled by the text built so far.  The package
  variables TimeFormat and TimeWrap are passed as arguments.
\<close>

definition buildString :: "string \<Rightarrow> string \<Rightarrow> gotime \<Rightarrow> string \<Rightarrow> string" where
  "buildString TimeWrap TimeFormat n b =
     (let b = (if 0 < length TimeWrap then b @ ''{\"'' @ TimeWrap @ ''\":'' else b);
          b = (if TimeFormat = '''' \<or> TimeFormat = ''nano'' then
                 b @ FormatInt (sint (UnixNano n))
               else if TimeFormat = ''second'' then
                 (let nano = UnixNano n;
                      secs = int64_div nano Second
                  in if 0 <s nano then b @ Sprintf_d_dot_09d secs (nano - (secs * Second))
                     else b @ Sprintf_d_dot_09d secs (- nano - (secs * Second)))
               else b @ ''\"'' @ Format n TimeFormat @ ''\"'')
      in if 0 < length TimeWrap then b @ ''}'' else b)"

definition String :: "string \<Rightarrow> string \<Rightarrow> gotime \<Rightarrow> string" where
  "String TimeWrap TimeFormat n = buildString TimeWrap TimeFormat n ''''"

section \<open>oj.Writer (src/unnamed/part_001)\<close>

subsection \<open>Go values as the writer sees them\<close>

text \<open>
  The kinds of reflect.Value that the writer tells apart (\<open>Slice\<close> stands for
  reflect.Slice and reflect.Array, which every switch treats alike; \<open>Basic\<close> for every
  other kind).
\<close>

datatype kind = Invalid | Ptr | Struct | Slice | Map | Interface | Basic

text \<open>
  A value of type \<open>interface{}\<close>.  The first ten cases are the dynamic types that the
  type switch of appendJSON names (the integer types after their conversion to int64 or
  uint64).  \<open>GObject\<close> lists the entries of a \<open>map[string]interface{}\<close> in the order in
  which \<open>range\<close> visits them.

  Every other value is \<open>GOther m r\<close>: \<open>r\<close> is the value as package reflect shows it and
  \<open>m\<close> holds what the hooks and library calls applied to it return: the result of
  \<open>Generic().Simplify()\<close> when the value is an alt.Genericer, the result of
  \<open>Simplify()\<close> when it is an alt.Simplifier, the texts of the verbs \<open>%v\<close> and \<open>%T\<close>,
  and the result of alt.Decompose.

  \<open>RInterface\<close> is a value seen under an interface type, as the elements of a slice or
  map are whose element type is an interface.  A reflected slice or map carries the flag whether its element type is an interface type
  (then \<open>Kind()\<close> of an element is Interface); a map carries the flag whether it is nil,
  and \<open>RSlice\<close>, which stands for slices and arrays, tells a nil slice, any other slice
  and an array apart.  A map lists its
  entries under \<open>String()\<close> of the keys, in the order of \<open>MapKeys()\<close>.  A struct carries the
  name and the package path of its type and its fields, which are the list
  \<open>st.Fields[wr.findex&ojg.MaskIndex]\<close> of its descriptor.

  Modelled from the spec: the field descriptors of package ojg are outside src/.  A field
  stands for what \<open>fi.Append(fi, wr.buf, rv, escape)\<close> returns on the struct at hand
  (section 4.3, extraction): \<open>FWrote out\<close> when the extractor wrote key and value itself
  (\<open>out escape\<close> are the bytes it appended), \<open>FSkip\<close> when it wrote nothing and there is
  no value (an omitted field), and \<open>FHas out k v\<close> when it appended the key prefix
  \<open>out escape\<close> and hands back the value \<open>v\<close> of a field of declared kind \<open>k\<close>.
\<close>

datatype seq_kind = NilSlice | NonNilSlice | ArrayValue

datatype gval =
    GNil
  | GBool bool
  | GInt int64
  | GUint "64 word"
  | GFloat32 gofloat
  | GFloat64 gofloat
  | GString string
  | GTime gotime
  | GArray "gval list"
  | GObject "(string \<times> gval) list"
  | GOther meta rvalue
and meta =
    Meta (Generic: "gval option") (Simplify: "gval option") (verb_v: string) (verb_T: string)
         (Decomposed: gval)
and rvalue =
    RInvalid
  | RBasic
  | RInterface
  | RPtr "gval option"
  | RStruct string string "field list"
  | RSlice bool seq_kind "gval list"
  | RMap bool bool "(string \<times> gval) list"
and field =
    FWrote "bool \<Rightarrow> string"
  | FSkip
  | FHas "bool \<Rightarrow> string" kind gval

text \<open>reflect.ValueOf, Kind and Elem.\<close>

fun ValueOf :: "gval \<Rightarrow> rvalue" where
  "ValueOf (GOther m r) = r"
| "ValueOf (GArray xs) = RSlice True NonNilSlice xs"
| "ValueOf (GObject kvs) = RMap True False kvs"
| "ValueOf GNil = RInvalid"
| "ValueOf v = RBasic"

fun Kind :: "rvalue \<Rightarrow> kind" where
  "Kind RInvalid = Invalid"
| "Kind RBasic = Basic"
| "Kind RInterface = Interface"
| "Kind (RPtr p) = Ptr"
| "Kind (RStruct tn pk fs) = Struct"
| "Kind (RSlice ifc nl xs) = Slice"
| "Kind (RMap ifc nl kvs) = Map"

text \<open>
  \<open>IsNil()\<close> of a slice or array: it panics on an array (\<open>None\<close>).
\<close>

fun IsNil :: "seq_kind \<Rightarrow> bool option" where
  "IsNil NilSlice = Some True"
| "IsNil NonNilSlice = Some False"
| "IsNil ArrayValue = None"

text \<open>
  The value a pointer refers to: \<open>None\<close> is the zero reflect.Value that \<open>Elem()\<close> of a
  nil pointer returns.
\<close>

fun Elem :: "rvalue \<Rightarrow> gval option" where
  "Elem (RPtr p) = p"
| "Elem r = None"

text \<open>The index expression \<open>n[k]\<close> of a map and \<open>rv.MapIndex(kv)\<close>.\<close>

definition lookup :: "(string \<times> gval) list \<Rightarrow> string \<Rightarrow> gval" where
  "lookup n k = (case map_of n k of None \<Rightarrow> GNil | Some m \<Rightarrow> m)"

text \<open>
  sort.Slice with its comparison function, as an insertion sort, and sort.Strings, which sorts
  in increasing order.
\<close>

fun insert_by :: "('a \<Rightarrow> 'a \<Rightarrow> bool) \<Rightarrow> 'a \<Rightarrow> 'a list \<Rightarrow> 'a list" where
  "insert_by lt x [] = [x]"
| "insert_by lt x (y # ys) = (if lt y x then y # insert_by lt x ys else x # y # ys)"

definition sort_Slice :: "('a \<Rightarrow> 'a \<Rightarrow> bool) \<Rightarrow> 'a list \<Rightarrow> 'a list" where
  "sort_Slice lt xs = foldr (insert_by lt) xs []"

definition sort_Strings :: "string list \<Rightarrow> string list" where
  "sort_Strings keys = sort_Slice (\<lambda>a b. a < b) keys"

text \<open>strings.Compare.\<close>

definition Compare :: "string \<Rightarrow> string \<Rightarrow> int" where
  "Compare a b = (if a = b then 0 else if a < b then -1 else 1)"

subsection \<open>Options, sink and Writer\<close>

text \<open>
  Modelled from the spec: the declaration of ojg.Options is outside src/; the fields are
  those of the options record of the spec (section 3) and \<open>Color\<close>, which MustWrite reads.
  The type parameter is the type of the values that the Converter maps.
  Go's \<open>int\<close> is taken as 64 bits wide; \<open>int_wrap\<close> is the wrap-around of its arithmetic.
\<close>

record 'v Options =
  Indent :: int
  Tab :: bool
  Sort :: bool
  OmitNil :: bool
  InitSize :: int
  WriteLimit :: int
  TimeFormat :: string
  TimeWrap :: string
  TimeMap :: bool
  CreateKey :: string
  NoReflect :: bool
  FullTypePath :: bool
  Color :: bool
  HTMLUnsafe :: bool
  UseTags :: bool
  KeyExact :: bool
  NestEmbed :: bool
  Converter :: "('v \<Rightarrow> 'v) option"

definition int_wrap :: "int \<Rightarrow> int" where
  "int_wrap i = signed_take_bit 63 i"

text \<open>
  Modelled from the spec: \<open>FieldsIndex\<close> of ojg.Options is outside src/.  It yields the
  index of the field list of a descriptor, a two-bit key of escaping and sorting
  (section 4.3).
\<close>

definition FieldsIndex :: "'v Options \<Rightarrow> nat" where
  "FieldsIndex opt = (if HTMLUnsafe opt then 0 else 1) + (if Sort opt then 2 else 0)"

text \<open>
  An io.Writer: the bytes it has taken so far and the number of calls of Write that it will
  still accept before it answers with an error.
\<close>

record sink =
  written :: string
  accepts :: nat

definition sink_Write :: "sink \<Rightarrow> string \<Rightarrow> sink option" where
  "sink_Write s bytes =
     (if accepts s = 0 then None
      else Some (s\<lparr>written := written s @ bytes, accepts := accepts s - 1\<rparr>))"

text \<open>The three function fields of Writer hold one of the functions MustJSON stores.\<close>

datatype array_fn = nil_array_fn | fn_appendArray | fn_tightArray
datatype object_fn = nil_object_fn | fn_appendObject | fn_appendSortObject
  | fn_tightObject | fn_tightSortObject
datatype default_fn = nil_default_fn | fn_appendDefault | fn_tightDefault

record Writer =
  opts :: "gval Options"
  buf :: string
  w :: "sink option"
  findex :: nat
  strict :: bool
  appendArray_field :: array_fn
  appendObject_field :: object_fn
  appendDefault_field :: default_fn

text \<open>What a panic carries.\<close>

datatype error =
    IndexOutOfRange
  | SliceBounds
  | NilFunction
  | ReflectPanic
  | NotEncodable string
  | SinkError

text \<open>
  A call on a Writer returns with the Writer updated or panics; the Writer is then left as
  it was at the panic.
\<close>

datatype res = Ok Writer | Panicked error Writer

definition andthen :: "res \<Rightarrow> (Writer \<Rightarrow> res) \<Rightarrow> res" where
  "andthen r f = (case r of Ok wr \<Rightarrow> f wr | Panicked e wr \<Rightarrow> Panicked e wr)"

lemma andthen_cong [fundef_cong]:
  "r = r' \<Longrightarrow> (\<And>wr. f wr = f' wr) \<Longrightarrow> andthen r f = andthen r' f'"
  by (simp add: andthen_def split: res.splits)

text \<open>\<open>wr.buf = append(wr.buf, s...)\<close>.\<close>

definition put :: "Writer \<Rightarrow> string \<Rightarrow> Writer" where
  "put wr s = wr\<lparr>buf := buf wr @ s\<rparr>"

text \<open>\<open>wr.buf[len(wr.buf)-1] = c\<close>, which panics on an empty buffer.\<close>

definition set_last :: "Writer \<Rightarrow> char \<Rightarrow> res" where
  "set_last wr c = (if buf wr = [] then Panicked IndexOutOfRange wr
                    else Ok (wr\<lparr>buf := butlast (buf wr) @ [c]\<rparr>))"

text \<open>The slice expression \<open>s[lo:hi]\<close> of a string, which panics out of bounds.\<close>

definition slice :: "string \<Rightarrow> int \<Rightarrow> int \<Rightarrow> string option" where
  "slice s lo hi = (if 0 \<le> lo \<and> lo \<le> hi \<and> hi \<le> int (length s)
                    then Some (take (nat (hi - lo)) (drop (nat lo) s)) else None)"

definition spaces :: string where
  "spaces = CHR 0x0A # replicate 128 (CHR '' '')"

definition tabs :: string where
  "tabs = CHR 0x0A # replicate 30 (CHR 0x09)"

text \<open>
  The strings \<open>is\<close> and \<open>cs\<close> that every indenting function computes first from its
  depth, with the same statements.
\<close>

definition indents :: "Writer \<Rightarrow> int \<Rightarrow> (string \<times> string) option" where
  "indents wr depth =
     (let d2 = depth + 1 in
      if Tab (opts wr) then
        (let x = depth + 1;
             x = (if int (length tabs) < x then int (length tabs) else x);
             y = d2 + 1;
             y = (if int (length tabs) < y then int (length tabs) else y)
         in (case slice tabs 1 x of None \<Rightarrow> None
             | Some is \<Rightarrow> (case slice tabs 0 y of None \<Rightarrow> None | Some cs \<Rightarrow> Some (is, cs))))
      else
        (let x = int_wrap (int_wrap (depth * Indent (opts wr)) + 1);
             x = (if int (length spaces) < x then int (length spaces) else x);
             y = int_wrap (int_wrap (d2 * Indent (opts wr)) + 1);
             y = (if int (length spaces) < y then int (length spaces) else y)
         in (case slice spaces 1 x of None \<Rightarrow> None
             | Some is \<Rightarrow> (case slice spaces 0 y of None \<Rightarrow> None | Some cs \<Rightarrow> Some (is, cs)))))"

text \<open>
  Modelled from the spec: ojg.AppendJSONString is outside src/.  It appends the string in
  quotes (section 4.4, String: quote and escape); the quote, the backslash and the control
  characters are escaped, and with \<open>htmlSafe\<close> the characters \<open><\<close>, \<open>>\<close> and
  \<open>&\<close> and the code points U+2028 and U+2029 (in UTF-8 the bytes E2 80 A8 and E2 80 A9)
  become escapes of a backslash, the letter u and four hexadecimal digits (section 6).
\<close>

definition hex_char :: "nat \<Rightarrow> char" where
  "hex_char d = ''0123456789abcdef'' ! d"

definition u00 :: "char \<Rightarrow> string" where
  "u00 c = [CHR 0x5C, CHR ''u'', CHR ''0'', CHR ''0'',
            hex_char (of_char c div 16), hex_char (of_char c mod 16)]"

definition escape_byte :: "bool \<Rightarrow> char \<Rightarrow> string" where
  "escape_byte htmlSafe c =
     (if c = CHR 0x22 then [CHR 0x5C, CHR 0x22]
      else if c = CHR 0x5C then [CHR 0x5C, CHR 0x5C]
      else if (of_char c :: nat) < 32 then u00 c
      else if htmlSafe \<and> (c = CHR ''<'' \<or> c = CHR ''>'' \<or> c = CHR ''&'') then u00 c
      else [c])"

fun escape :: "bool \<Rightarrow> string \<Rightarrow> string" where
  "escape htmlSafe (c1 # c2 # c3 # cs) =
     (if htmlSafe \<and> c1 = CHR 0xE2 \<and> c2 = CHR 0x80 \<and> (c3 = CHR 0xA8 \<or> c3 = CHR 0xA9)
      then [CHR 0x5C, CHR ''u'', CHR ''2'', CHR ''0'', CHR ''2'',
            (if c3 = CHR 0xA8 then CHR ''8'' else CHR ''9'')] @ escape htmlSafe cs
      else escape_byte htmlSafe c1 @ escape htmlSafe (c2 # c3 # cs))"
| "escape htmlSafe (c # cs) = escape_byte htmlSafe c @ escape htmlSafe cs"
| "escape htmlSafe [] = []"

definition AppendJSONString :: "string \<Rightarrow> string \<Rightarrow> bool \<Rightarrow> string" where
  "AppendJSONString b s htmlSafe = b @ [CHR 0x22] @ escape htmlSafe s @ [CHR 0x22]"

text \<open>
  appendTime (lines 239 to 276), in its three parts: the opening of the wrapping object,
  the encoded time, and the closing brace.  It calls nothing that can panic; the strings
  CreateKey and TimeWrap and the formatted time are appended as they are.
\<close>

definition appendTime_open :: "Writer \<Rightarrow> Writer" where
  "appendTime_open wr =
     (if TimeMap (opts wr) then
        (let wr = put wr ''{\"'';
             wr = put wr (CreateKey (opts wr));
             wr = put wr ''\":\"'';
             wr = (if FullTypePath (opts wr) then put wr ''time/Time'' else put wr ''Time'')
         in put wr ''\",\"value\":'')
      else if 0 < length (TimeWrap (opts wr)) then
        (let wr = put wr ''{\"'';
             wr = put wr (TimeWrap (opts wr))
         in put wr ''\":'')
      else wr)"

definition appendTime_value :: "Writer \<Rightarrow> gotime \<Rightarrow> Writer" where
  "appendTime_value wr t =
     (if TimeFormat (opts wr) = '''' \<or> TimeFormat (opts wr) = ''nano'' then
        put wr (FormatInt (sint (UnixNano t)))
      else if TimeFormat (opts wr) = ''second'' then
        (let nano = UnixNano t;
             secs = int64_div nano Second
         in if 0 <s nano then
              put wr (Sprintf_d_dot_09d secs (nano - (secs * Second)))
            else
              put wr (Sprintf_d_dot_09d secs (- (nano - (secs * Second)))))
      else
        (let wr = put wr [CHR 0x22];
             wr = put wr (Format t (TimeFormat (opts wr)))
         in put wr [CHR 0x22]))"

definition appendTime_close :: "Writer \<Rightarrow> Writer" where
  "appendTime_close wr =
     (if 0 < length (TimeWrap (opts wr)) \<or> TimeMap (opts wr) then put wr ''}'' else wr)"

definition appendTime :: "Writer \<Rightarrow> gotime \<Rightarrow> Writer" where
  "appendTime wr t = appendTime_close (appendTime_value (appendTime_open wr) t)"

text \<open>
  The end of appendJSON (lines 193 to 198): with a sink and more than WriteLimit bytes in the
  buffer, the buffer is written to the sink and emptied; an error of the sink is a panic.
\<close>

definition flush_over_limit :: "Writer \<Rightarrow> res" where
  "flush_over_limit wr =
     (case w wr of
        None \<Rightarrow> Ok wr
      | Some s \<Rightarrow>
          (if WriteLimit (opts wr) < int (length (buf wr)) then
             (case sink_Write s (buf wr) of
                None \<Rightarrow> Panicked SinkError wr
              | Some s' \<Rightarrow> Ok (wr\<lparr>w := Some s', buf := []\<rparr>))
           else Ok wr))"

subsection \<open>The emitters\<close>

text \<open>
  The functions that append to the buffer call each other, directly and through the three
  function fields of the Writer.  They are defined together as one function \<open>emit\<close> on the
  call to carry out; the source's names are given to the calls below.  A loop is the call
  that runs the rest of the function from the loop on: its arguments are the local
  variables of the function and the part of the sequence still to visit, and on the empty
  sequence it runs the statements after the loop.
\<close>

datatype call =
    c_appendJSON gval int
  | c_appendDefault meta rvalue int
  | c_appendArray "gval list" int
  | c_appendArray_loop "gval list" string string int
  | c_appendObject "(string \<times> gval) list" int
  | c_appendObject_loop bool "(string \<times> gval) list" string string int
  | c_appendSortObject "(string \<times> gval) list" int
  | c_appendSortObject_loop bool "(string \<times> gval) list" "string list" string string int
  | c_appendStruct string string "field list" int
  | c_appendStruct_loop bool bool "field list" string string int
  | c_appendSlice bool "gval list" int
  | c_appendSlice_loop bool bool "gval list" string string int
  | c_appendMap bool "(string \<times> gval) list" int
  | c_appendMap_loop bool bool "(string \<times> gval) list" "string list" string string int
  | c_tightDefault meta rvalue int
  | c_tightArray "gval list" int
  | c_tightArray_loop "gval list" int
  | c_tightObject "(string \<times> gval) list" int
  | c_tightObject_loop bool "(string \<times> gval) list" int
  | c_tightSortObject "(string \<times> gval) list" int
  | c_tightSortObject_loop bool "(string \<times> gval) list" "string list" int
  | c_tightStruct string string "field list" int
  | c_tightStruct_loop bool "field list" int
  | c_tightSlice bool "gval list" int
  | c_tightSlice_loop bool bool "gval list" int
  | c_tightMap bool "(string \<times> gval) list" int
  | c_tightMap_loop bool bool "(string \<times> gval) list" "string list" int

text \<open>
  The statements after a loop, with the local variable \<open>empty\<close> as \<open>isEmpty\<close>: the last
  comma becomes a newline, then \<open>is\<close> and the closing bracket.
\<close>

definition close_indented :: "Writer \<Rightarrow> bool \<Rightarrow> string \<Rightarrow> string \<Rightarrow> res" where
  "close_indented wr isEmpty is closer =
     andthen (if \<not> isEmpty then andthen (set_last wr (CHR 0x0A)) (\<lambda>wr. Ok (put wr is)) else Ok wr)
       (\<lambda>wr. Ok (put wr closer))"

text \<open>\<open>wr.buf = wr.buf[:len(wr.buf)-len(cs)]\<close> in appendStruct.\<close>

definition unindent :: "Writer \<Rightarrow> string \<Rightarrow> res" where
  "unindent wr cs =
     (if length (buf wr) < length cs then Panicked SliceBounds wr
      else Ok (wr\<lparr>buf := take (length (buf wr) - length cs) (buf wr)\<rparr>))"

text \<open>
  The value and kind that appendStruct switches on for a field of declared kind \<open>k\<close> with
  value \<open>v\<close>: a pointer is replaced by what it refers to, with the kind of that.
  \<open>Elem()\<close> panics unless \<open>v\<close> is a pointer, \<open>Interface()\<close> panics on a nil pointer.
\<close>

definition field_target :: "kind \<Rightarrow> gval \<Rightarrow> (kind \<times> gval) option" where
  "field_target k v =
     (if k = Ptr then
        (case ValueOf v of RPtr (Some x) \<Rightarrow> Some (Kind (ValueOf x), x) | _ \<Rightarrow> None)
      else Some (k, v))"

text \<open>
  The element that appendMap finds under a key, after its first test: \<open>None\<close> when the
  entry is left out (a nil pointer under OmitNil), \<open>Some None\<close> for the zero reflect.Value
  behind a nil pointer, else the element, or what it points to.
\<close>

definition map_elem :: "bool \<Rightarrow> bool \<Rightarrow> gval \<Rightarrow> gval option option" where
  "map_elem omitNil ifc rm =
     (if \<not> ifc \<and> Kind (ValueOf rm) = Ptr then
        (if omitNil \<and> Option.is_none (Elem (ValueOf rm)) then None
         else Some (Elem (ValueOf rm)))
      else Some (Some rm))"

text \<open>
  The reflect.Value of an element as the switch on its kind sees it: under an interface
  type the kind is Interface.
\<close>

definition view :: "bool \<Rightarrow> gval \<Rightarrow> rvalue" where
  "view ifc x = (if ifc then RInterface else ValueOf x)"

text \<open>The test \<open>m == nil\<close> on a value of type \<open>interface{}\<close>.\<close>

definition is_nil :: "gval \<Rightarrow> bool" where
  "is_nil m = (case m of GNil \<Rightarrow> True | _ \<Rightarrow> False)"

text \<open>The key of an entry: AppendJSONString and the separator.\<close>

definition put_key :: "Writer \<Rightarrow> string \<Rightarrow> string \<Rightarrow> Writer" where
  "put_key wr k sep =
     put (wr\<lparr>buf := AppendJSONString (buf wr) k (\<not> HTMLUnsafe (opts wr))\<rparr>) sep"

text \<open>The type entry that appendStruct writes first when CreateKey is set.\<close>

definition put_type :: "Writer \<Rightarrow> string \<Rightarrow> string \<Rightarrow> string \<Rightarrow> Writer" where
  "put_type wr sep tn pk =
     (let wr = put wr [CHR 0x22];
          wr = put wr (CreateKey (opts wr));
          wr = put wr sep;
          wr = (if FullTypePath (opts wr) then put wr (pk @ ''/'' @ tn) else put wr tn)
      in put wr [CHR 0x22, CHR '',''])"

function emit :: "Writer \<Rightarrow> call \<Rightarrow> res" where
  \<comment> \<open>appendJSON (lines 136 to 199)\<close>
  "emit wr (c_appendJSON data depth) =
     andthen
       (case data of
          GNil \<Rightarrow> Ok (put wr ''null'')
        | GBool td \<Rightarrow> Ok (if td then put wr ''true'' else put wr ''false'')
        | GInt td \<Rightarrow> Ok (put wr (FormatInt (sint td)))
        | GUint td \<Rightarrow> Ok (put wr (FormatUint (unat td)))
        | GFloat32 td \<Rightarrow> Ok (wr\<lparr>buf := AppendFloat (buf wr) td\<rparr>)
        | GFloat64 td \<Rightarrow> Ok (wr\<lparr>buf := AppendFloat (buf wr) td\<rparr>)
        | GString td \<Rightarrow> Ok (wr\<lparr>buf := AppendJSONString (buf wr) td (\<not> HTMLUnsafe (opts wr))\<rparr>)
        | GTime td \<Rightarrow> Ok (appendTime wr td)
        | GArray td \<Rightarrow>
            (case appendArray_field wr of
               fn_appendArray \<Rightarrow> emit wr (c_appendArray td depth)
             | fn_tightArray \<Rightarrow> emit wr (c_tightArray td depth)
             | nil_array_fn \<Rightarrow> Panicked NilFunction wr)
        | GObject td \<Rightarrow>
            (case appendObject_field wr of
               fn_appendObject \<Rightarrow> emit wr (c_appendObject td depth)
             | fn_appendSortObject \<Rightarrow> emit wr (c_appendSortObject td depth)
             | fn_tightObject \<Rightarrow> emit wr (c_tightObject td depth)
             | fn_tightSortObject \<Rightarrow> emit wr (c_tightSortObject td depth)
             | nil_object_fn \<Rightarrow> Panicked NilFunction wr)
        | GOther m r \<Rightarrow>
            (case appendDefault_field wr of
               fn_appendDefault \<Rightarrow> emit wr (c_appendDefault m r depth)
             | fn_tightDefault \<Rightarrow> emit wr (c_tightDefault m r depth)
             | nil_default_fn \<Rightarrow> Panicked NilFunction wr))
       flush_over_limit"
  \<comment> \<open>appendDefault (lines 201 to 237)\<close>
| "emit wr (c_appendDefault m r depth) =
     (case Generic m of
        Some g \<Rightarrow> emit wr (c_appendJSON g depth)
      | None \<Rightarrow>
     (case Simplify m of
        Some simp \<Rightarrow> emit wr (c_appendJSON simp depth)
      | None \<Rightarrow>
     (if \<not> NoReflect (opts wr) then
        (let rv = (if Kind r = Ptr
                   then (case Elem r of None \<Rightarrow> RInvalid | Some x \<Rightarrow> ValueOf x) else r)
         in (case rv of
               RStruct tn pk fs \<Rightarrow> emit wr (c_appendStruct tn pk fs depth)
             | RSlice ifc nl xs \<Rightarrow> emit wr (c_appendSlice ifc xs depth)
             | RMap ifc nl kvs \<Rightarrow> emit wr (c_appendMap ifc kvs depth)
             | _ \<Rightarrow> emit wr (c_appendJSON (Decomposed m) depth)))
      else if strict wr then Panicked (NotEncodable (verb_T m)) wr
      else Ok (wr\<lparr>buf := AppendJSONString (buf wr) (verb_v m) (\<not> HTMLUnsafe (opts wr))\<rparr>))))"
  \<comment> \<open>appendArray (lines 278 to 318)\<close>
| "emit wr (c_appendArray n depth) =
     (case indents wr depth of
        None \<Rightarrow> Panicked SliceBounds wr
      | Some (is, cs) \<Rightarrow>
          (if 0 < length n then emit (put wr ''['') (c_appendArray_loop n cs is (depth + 1))
           else Ok (put wr ''[]'')))"
| "emit wr (c_appendArray_loop [] cs is d2) =
     andthen (set_last wr (CHR 0x0A)) (\<lambda>wr. Ok (put (put wr is) '']''))"
| "emit wr (c_appendArray_loop (m # ms) cs is d2) =
     andthen (emit (put wr cs) (c_appendJSON m d2))
       (\<lambda>wr. emit (put wr '','') (c_appendArray_loop ms cs is d2))"
  \<comment> \<open>appendObject (lines 320 to 366)\<close>
| "emit wr (c_appendObject n depth) =
     (case indents wr depth of
        None \<Rightarrow> Panicked SliceBounds wr
      | Some (is, cs) \<Rightarrow> emit (put wr ''{'') (c_appendObject_loop True n cs is (depth + 1)))"
| "emit wr (c_appendObject_loop isEmpty [] cs is d2) = close_indented wr isEmpty is ''}''"
| "emit wr (c_appendObject_loop isEmpty ((k, m) # rest) cs is d2) =
     (if is_nil m \<and> OmitNil (opts wr) then emit wr (c_appendObject_loop isEmpty rest cs is d2)
      else andthen (emit (put_key (put wr cs) k '': '') (c_appendJSON m d2))
             (\<lambda>wr. emit (put wr '','') (c_appendObject_loop False rest cs is d2)))"
  \<comment> \<open>appendSortObject (lines 368 to 420)\<close>
| "emit wr (c_appendSortObject n depth) =
     (case indents wr depth of
        None \<Rightarrow> Panicked SliceBounds wr
      | Some (is, cs) \<Rightarrow>
          (let keys = sort_Strings (map fst n)
           in emit (put wr ''{'') (c_appendSortObject_loop True n keys cs is (depth + 1))))"
| "emit wr (c_appendSortObject_loop isEmpty n [] cs is d2) = close_indented wr isEmpty is ''}''"
| "emit wr (c_appendSortObject_loop isEmpty n (k # keys) cs is d2) =
     (let m = lookup n k in
      if is_nil m \<and> OmitNil (opts wr)
      then emit wr (c_appendSortObject_loop isEmpty n keys cs is d2)
      else andthen (emit (put_key (put wr cs) k '': '') (c_appendJSON m d2))
             (\<lambda>wr. emit (put wr '','') (c_appendSortObject_loop False n keys cs is d2)))"
  \<comment> \<open>appendStruct (lines 422 to 525)\<close>
| "emit wr (c_appendStruct tn pk flds depth) =
     (let wr = put wr ''{'' in
      case indents wr depth of
        None \<Rightarrow> Panicked SliceBounds wr
      | Some (is, cs) \<Rightarrow>
          (if 0 < length (CreateKey (opts wr)) then
             emit (put_type (put wr cs) [CHR 0x22, CHR '':'', CHR '' '', CHR 0x22] tn pk)
               (c_appendStruct_loop False False flds cs is (depth + 1))
           else emit wr (c_appendStruct_loop True False flds cs is (depth + 1))))"
| "emit wr (c_appendStruct_loop isEmpty indented [] cs is d2) =
     andthen (if indented then unindent wr cs else Ok wr)
       (\<lambda>wr. close_indented wr isEmpty is ''}'')"
| "emit wr (c_appendStruct_loop isEmpty indented (fi # rest) cs is d2) =
     (let wr = (if \<not> indented then put wr cs else wr) in
      case fi of
        FWrote out \<Rightarrow>
          emit (put (put wr (out (\<not> HTMLUnsafe (opts wr)))) '','')
            (c_appendStruct_loop False False rest cs is d2)
      | FSkip \<Rightarrow> emit wr (c_appendStruct_loop isEmpty True rest cs is d2)
      | FHas out k v \<Rightarrow>
          (let wr = put wr (out (\<not> HTMLUnsafe (opts wr))) in
           andthen
             (case field_target k v of
                None \<Rightarrow> Panicked ReflectPanic wr
              | Some (kind, v) \<Rightarrow>
                  (case kind of
                     Struct \<Rightarrow>
                       (case ValueOf v of
                          RStruct tn pk fs \<Rightarrow> emit wr (c_appendStruct tn pk fs d2)
                        | _ \<Rightarrow> Panicked ReflectPanic wr)
                   | Slice \<Rightarrow>
                       (case ValueOf v of
                          RSlice ifc nl xs \<Rightarrow> emit wr (c_appendSlice ifc xs d2)
                        | _ \<Rightarrow> Panicked ReflectPanic wr)
                   | Map \<Rightarrow>
                       (case ValueOf v of
                          RMap ifc nl kvs \<Rightarrow> emit wr (c_appendMap ifc kvs d2)
                        | _ \<Rightarrow> Panicked ReflectPanic wr)
                   | _ \<Rightarrow> emit wr (c_appendJSON v d2)))
             (\<lambda>wr. emit (put wr '','') (c_appendStruct_loop False False rest cs is d2))))"
  \<comment> \<open>appendSlice (lines 527 to 578)\<close>
| "emit wr (c_appendSlice ifc n depth) =
     (case indents wr depth of
        None \<Rightarrow> Panicked SliceBounds wr
      | Some (is, cs) \<Rightarrow> emit (put wr ''['') (c_appendSlice_loop True ifc n cs is (depth + 1)))"
| "emit wr (c_appendSlice_loop isEmpty ifc [] cs is d2) = close_indented wr isEmpty is '']''"
| "emit wr (c_appendSlice_loop isEmpty ifc (rm # rest) cs is d2) =
     (let wr = put wr cs in
      andthen
        (case view ifc rm of
           RStruct tn pk fs \<Rightarrow> emit wr (c_appendStruct tn pk fs d2)
         | RSlice i nl xs \<Rightarrow> emit wr (c_appendSlice i xs d2)
         | RMap i nl kvs \<Rightarrow> emit wr (c_appendMap i kvs d2)
         | _ \<Rightarrow> emit wr (c_appendJSON rm d2))
        (\<lambda>wr. emit (put wr '','') (c_appendSlice_loop False ifc rest cs is d2)))"
  \<comment> \<open>appendMap (lines 580 to 654)\<close>
| "emit wr (c_appendMap ifc n depth) =
     (case indents wr depth of
        None \<Rightarrow> Panicked SliceBounds wr
      | Some (is, cs) \<Rightarrow>
          (let keys = map fst n;
               keys = (if Sort (opts wr) then sort_Slice (\<lambda>a b. 0 < Compare a b) keys else keys)
           in emit (put wr ''{'') (c_appendMap_loop True ifc n keys cs is (depth + 1))))"
| "emit wr (c_appendMap_loop isEmpty ifc n [] cs is d2) = close_indented wr isEmpty is ''}''"
| "emit wr (c_appendMap_loop isEmpty ifc n (kv # keys) cs is d2) =
     (case map_elem (OmitNil (opts wr)) ifc (lookup n kv) of
        None \<Rightarrow> emit wr (c_appendMap_loop isEmpty ifc n keys cs is d2)
      | Some el \<Rightarrow>
          (let wr = put wr cs in
           case el of
             None \<Rightarrow> Panicked ReflectPanic (put_key wr kv '': '')
           | Some rm \<Rightarrow>
               (case view ifc rm of
                  RStruct tn pk fs \<Rightarrow>
                    andthen (emit (put_key wr kv '': '') (c_appendStruct tn pk fs d2))
                      (\<lambda>wr. emit (put wr '','') (c_appendMap_loop False ifc n keys cs is d2))
                | RSlice i nl xs \<Rightarrow>
                    (case (if OmitNil (opts wr) then IsNil nl else Some False) of
                       None \<Rightarrow> Panicked ReflectPanic wr
                     | Some True \<Rightarrow> emit wr (c_appendMap_loop isEmpty ifc n keys cs is d2)
                     | Some False \<Rightarrow>
                         andthen (emit (put_key wr kv '': '') (c_appendSlice i xs d2))
                           (\<lambda>wr. emit (put wr '','') (c_appendMap_loop False ifc n keys cs is d2)))
                | RMap i nl kvs \<Rightarrow>
                    (if OmitNil (opts wr) \<and> nl
                     then emit wr (c_appendMap_loop isEmpty ifc n keys cs is d2)
                     else andthen (emit (put_key wr kv '': '') (c_appendMap i kvs d2))
                            (\<lambda>wr. emit (put wr '','') (c_appendMap_loop False ifc n keys cs is d2)))
                | _ \<Rightarrow>
                    andthen (emit (put_key wr kv '': '') (c_appendJSON rm d2))
                      (\<lambda>wr. emit (put wr '','') (c_appendMap_loop False ifc n keys cs is d2)))))"
  \<comment> \<open>the tight functions, modelled from the spec (see below)\<close>
| "emit wr (c_tightDefault m r depth) =
     (case Generic m of
        Some g \<Rightarrow> emit wr (c_appendJSON g depth)
      | None \<Rightarrow>
     (case Simplify m of
        Some simp \<Rightarrow> emit wr (c_appendJSON simp depth)
      | None \<Rightarrow>
     (if \<not> NoReflect (opts wr) then
        (let rv = (if Kind r = Ptr
                   then (case Elem r of None \<Rightarrow> RInvalid | Some x \<Rightarrow> ValueOf x) else r)
         in (case rv of
               RStruct tn pk fs \<Rightarrow> emit wr (c_tightStruct tn pk fs depth)
             | RSlice ifc nl xs \<Rightarrow> emit wr (c_tightSlice ifc xs depth)
             | RMap ifc nl kvs \<Rightarrow> emit wr (c_tightMap ifc kvs depth)
             | _ \<Rightarrow> emit wr (c_appendJSON (Decomposed m) depth)))
      else if strict wr then Panicked (NotEncodable (verb_T m)) wr
      else Ok (wr\<lparr>buf := AppendJSONString (buf wr) (verb_v m) (\<not> HTMLUnsafe (opts wr))\<rparr>))))"
| "emit wr (c_tightArray n depth) =
     (if 0 < length n then emit (put wr ''['') (c_tightArray_loop n (depth + 1))
      else Ok (put wr ''[]''))"
| "emit wr (c_tightArray_loop [] d2) = set_last wr (CHR '']'')"
| "emit wr (c_tightArray_loop (m # ms) d2) =
     andthen (emit wr (c_appendJSON m d2)) (\<lambda>wr. emit (put wr '','') (c_tightArray_loop ms d2))"
| "emit wr (c_tightObject n depth) = emit (put wr ''{'') (c_tightObject_loop True n (depth + 1))"
| "emit wr (c_tightObject_loop isEmpty [] d2) =
     (if isEmpty then Ok (put wr ''}'') else set_last wr (CHR ''}''))"
| "emit wr (c_tightObject_loop isEmpty ((k, m) # rest) d2) =
     (if is_nil m \<and> OmitNil (opts wr) then emit wr (c_tightObject_loop isEmpty rest d2)
      else andthen (emit (put_key wr k '':'') (c_appendJSON m d2))
             (\<lambda>wr. emit (put wr '','') (c_tightObject_loop False rest d2)))"
| "emit wr (c_tightSortObject n depth) =
     emit (put wr ''{'') (c_tightSortObject_loop True n (sort_Strings (map fst n)) (depth + 1))"
| "emit wr (c_tightSortObject_loop isEmpty n [] d2) =
     (if isEmpty then Ok (put wr ''}'') else set_last wr (CHR ''}''))"
| "emit wr (c_tightSortObject_loop isEmpty n (k # keys) d2) =
     (let m = lookup n k in
      if is_nil m \<and> OmitNil (opts wr) then emit wr (c_tightSortObject_loop isEmpty n keys d2)
      else andthen (emit (put_key wr k '':'') (c_appendJSON m d2))
             (\<lambda>wr. emit (put wr '','') (c_tightSortObject_loop False n keys d2)))"
| "emit wr (c_tightStruct tn pk flds depth) =
     (let wr = put wr ''{'' in
      if 0 < length (CreateKey (opts wr)) then
        emit (put_type wr [CHR 0x22, CHR '':'', CHR 0x22] tn pk)
          (c_tightStruct_loop False flds (depth + 1))
      else emit wr (c_tightStruct_loop True flds (depth + 1)))"
| "emit wr (c_tightStruct_loop isEmpty [] d2) =
     (if isEmpty then Ok (put wr ''}'') else set_last wr (CHR ''}''))"
| "emit wr (c_tightStruct_loop isEmpty (fi # rest) d2) =
     (case fi of
        FWrote out \<Rightarrow>
          emit (put (put wr (out (\<not> HTMLUnsafe (opts wr)))) '','') (c_tightStruct_loop False rest d2)
      | FSkip \<Rightarrow> emit wr (c_tightStruct_loop isEmpty rest d2)
      | FHas out k v \<Rightarrow>
          (let wr = put wr (out (\<not> HTMLUnsafe (opts wr))) in
           andthen
             (case field_target k v of
                None \<Rightarrow> Panicked ReflectPanic wr
              | Some (kind, v) \<Rightarrow>
                  (case kind of
                     Struct \<Rightarrow>
                       (case ValueOf v of
                          RStruct tn pk fs \<Rightarrow> emit wr (c_tightStruct tn pk fs d2)
                        | _ \<Rightarrow> Panicked ReflectPanic wr)
                   | Slice \<Rightarrow>
                       (case ValueOf v of
                          RSlice ifc nl xs \<Rightarrow> emit wr (c_tightSlice ifc xs d2)
                        | _ \<Rightarrow> Panicked ReflectPanic wr)
                   | Map \<Rightarrow>
                       (case ValueOf v of
                          RMap ifc nl kvs \<Rightarrow> emit wr (c_tightMap ifc kvs d2)
                        | _ \<Rightarrow> Panicked ReflectPanic wr)
                   | _ \<Rightarrow> emit wr (c_appendJSON v d2)))
             (\<lambda>wr. emit (put wr '','') (c_tightStruct_loop False rest d2))))"
| "emit wr (c_tightSlice ifc n depth) =
     emit (put wr ''['') (c_tightSlice_loop True ifc n (depth + 1))"
| "emit wr (c_tightSlice_loop isEmpty ifc [] d2) =
     (if isEmpty then Ok (put wr '']'') else set_last wr (CHR '']''))"
| "emit wr (c_tightSlice_loop isEmpty ifc (rm # rest) d2) =
     andthen
       (case view ifc rm of
          RStruct tn pk fs \<Rightarrow> emit wr (c_tightStruct tn pk fs d2)
        | RSlice i nl xs \<Rightarrow> emit wr (c_tightSlice i xs d2)
        | RMap i nl kvs \<Rightarrow> emit wr (c_tightMap i kvs d2)
        | _ \<Rightarrow> emit wr (c_appendJSON rm d2))
       (\<lambda>wr. emit (put wr '','') (c_tightSlice_loop False ifc rest d2))"
| "emit wr (c_tightMap ifc n depth) =
     (let keys = map fst n;
          keys = (if Sort (opts wr) then sort_Strings keys else keys)
      in emit (put wr ''{'') (c_tightMap_loop True ifc n keys (depth + 1)))"
| "emit wr (c_tightMap_loop isEmpty ifc n [] d2) =
     (if isEmpty then Ok (put wr ''}'') else set_last wr (CHR ''}''))"
| "emit wr (c_tightMap_loop isEmpty ifc n (kv # keys) d2) =
     (case map_elem (OmitNil (opts wr)) ifc (lookup n kv) of
        None \<Rightarrow> emit wr (c_tightMap_loop isEmpty ifc n keys d2)
      | Some el \<Rightarrow>
          (case el of
             None \<Rightarrow> Panicked ReflectPanic (put_key wr kv '':'')
           | Some rm \<Rightarrow>
               (case view ifc rm of
                  RStruct tn pk fs \<Rightarrow>
                    andthen (emit (put_key wr kv '':'') (c_tightStruct tn pk fs d2))
                      (\<lambda>wr. emit (put wr '','') (c_tightMap_loop False ifc n keys d2))
                | RSlice i nl xs \<Rightarrow>
                    (if OmitNil (opts wr) \<and> nl = NilSlice
                     then emit wr (c_tightMap_loop isEmpty ifc n keys d2)
                     else andthen (emit (put_key wr kv '':'') (c_tightSlice i xs d2))
                            (\<lambda>wr. emit (put wr '','') (c_tightMap_loop False ifc n keys d2)))
                | RMap i nl kvs \<Rightarrow>
                    (if OmitNil (opts wr) \<and> nl then emit wr (c_tightMap_loop isEmpty ifc n keys d2)
                     else andthen (emit (put_key wr kv '':'') (c_tightMap i kvs d2))
                            (\<lambda>wr. emit (put wr '','') (c_tightMap_loop False ifc n keys d2)))
                | _ \<Rightarrow>
                    andthen (emit (put_key wr kv '':'') (c_appendJSON rm d2))
                      (\<lambda>wr. emit (put wr '','') (c_tightMap_loop False ifc n keys d2)))))"
  by pat_completeness auto

text \<open>
  Termination: every call is made on a part of the value at hand.  The measure is the size
  of the data of a call; calls on the same data are ordered by a rank, which for the loops
  over sorted keys is the number of keys left.
\<close>

fun call_weight :: "call \<Rightarrow> nat" where
  "call_weight (c_appendJSON v d) = 2 * size v + 1"
| "call_weight (c_appendDefault m r d) = 2 * (size m + size r) + 2"
| "call_weight (c_appendArray xs d) = 2 * size_list size xs + 2"
| "call_weight (c_appendArray_loop xs cs is d) = 2 * size_list size xs + 1"
| "call_weight (c_appendObject n d) = 2 * size_list (size_prod (\<lambda>x. 0) size) n + 2"
| "call_weight (c_appendObject_loop e n cs is d) = 2 * size_list (size_prod (\<lambda>x. 0) size) n + 1"
| "call_weight (c_appendSortObject n d) = 2 * size_list (size_prod (\<lambda>x. 0) size) n + 2"
| "call_weight (c_appendSortObject_loop e n ks cs is d) =
     2 * size_list (size_prod (\<lambda>x. 0) size) n + 2"
| "call_weight (c_appendStruct tn pk fs d) = 2 * size_list size fs + 2"
| "call_weight (c_appendStruct_loop e i fs cs is d) = 2 * size_list size fs + 1"
| "call_weight (c_appendSlice ifc xs d) = 2 * size_list size xs + 2"
| "call_weight (c_appendSlice_loop e ifc xs cs is d) = 2 * size_list size xs + 1"
| "call_weight (c_appendMap ifc n d) = 2 * size_list (size_prod (\<lambda>x. 0) size) n + 2"
| "call_weight (c_appendMap_loop e ifc n ks cs is d) =
     2 * size_list (size_prod (\<lambda>x. 0) size) n + 2"
| "call_weight (c_tightDefault m r d) = 2 * (size m + size r) + 2"
| "call_weight (c_tightArray xs d) = 2 * size_list size xs + 2"
| "call_weight (c_tightArray_loop xs d) = 2 * size_list size xs + 1"
| "call_weight (c_tightObject n d) = 2 * size_list (size_prod (\<lambda>x. 0) size) n + 2"
| "call_weight (c_tightObject_loop e n d) = 2 * size_list (size_prod (\<lambda>x. 0) size) n + 1"
| "call_weight (c_tightSortObject n d) = 2 * size_list (size_prod (\<lambda>x. 0) size) n + 2"
| "call_weight (c_tightSortObject_loop e n ks d) =
     2 * size_list (size_prod (\<lambda>x. 0) size) n + 2"
| "call_weight (c_tightStruct tn pk fs d) = 2 * size_list size fs + 2"
| "call_weight (c_tightStruct_loop e fs d) = 2 * size_list size fs + 1"
| "call_weight (c_tightSlice ifc xs d) = 2 * size_list size xs + 2"
| "call_weight (c_tightSlice_loop e ifc xs d) = 2 * size_list size xs + 1"
| "call_weight (c_tightMap ifc n d) = 2 * size_list (size_prod (\<lambda>x. 0) size) n + 2"
| "call_weight (c_tightMap_loop e ifc n ks d) =
     2 * size_list (size_prod (\<lambda>x. 0) size) n + 2"

fun call_rank :: "call \<Rightarrow> nat" where
  "call_rank (c_appendSortObject n d) = length n + 1"
| "call_rank (c_appendSortObject_loop e n ks cs is d) = length ks"
| "call_rank (c_appendMap ifc n d) = length n + 1"
| "call_rank (c_appendMap_loop e ifc n ks cs is d) = length ks"
| "call_rank (c_tightSortObject n d) = length n + 1"
| "call_rank (c_tightSortObject_loop e n ks d) = length ks"
| "call_rank (c_tightMap ifc n d) = length n + 1"
| "call_rank (c_tightMap_loop e ifc n ks d) = length ks"
| "call_rank c = 0"

lemma length_insert_by: "length (insert_by lt x xs) = Suc (length xs)"
  by (induction xs) auto

lemma length_sort_Slice: "length (sort_Slice lt xs) = length xs"
  by (induction xs) (auto simp: sort_Slice_def length_insert_by)

lemma length_sort_Strings: "length (sort_Strings xs) = length xs"
  by (simp add: sort_Strings_def length_sort_Slice)

lemma size_map_of:
  "map_of n k = Some v \<Longrightarrow> size v < size_list (size_prod (\<lambda>x. 0) size) n"
  by (induction n) (auto split: if_splits)

lemma size_lookup: "size (lookup n k) \<le> size_list (size_prod (\<lambda>x. 0) size) n"
  by (auto simp: lookup_def dest: size_map_of split: option.splits)

lemma size_ValueOf_RStruct: "ValueOf v = RStruct tn pk fs \<Longrightarrow> size_list size fs < size v"
  by (cases v) auto

lemma size_ValueOf_RSlice: "ValueOf v = RSlice i nl xs \<Longrightarrow> size_list size xs < size v"
  by (cases v) auto

lemma size_ValueOf_RMap:
  "ValueOf v = RMap i nl kvs \<Longrightarrow> size_list (size_prod (\<lambda>x. 0) size) kvs < size v"
  by (cases v) auto

lemma size_ValueOf_RPtr: "ValueOf v = RPtr (Some x) \<Longrightarrow> size x < size v"
  by (cases v) auto

lemma size_field_target: "field_target k v = Some (k', v') \<Longrightarrow> size v' \<le> size v"
  by (auto simp: field_target_def dest: size_ValueOf_RPtr
      split: if_splits rvalue.splits option.splits)

lemma size_map_elem: "map_elem omitNil ifc rm = Some (Some x) \<Longrightarrow> size x \<le> size rm"
proof (cases "ValueOf rm")
  case (RPtr p)
  assume "map_elem omitNil ifc rm = Some (Some x)"
  with RPtr have "x = rm \<or> p = Some x"
    by (auto simp: map_elem_def Option.is_none_def split: if_splits)
  with RPtr show ?thesis using size_ValueOf_RPtr[of rm x] by auto
qed (auto simp: map_elem_def split: if_splits)

lemma size_Decomposed: "size (Decomposed m) < size m"
  by (cases m) simp

lemma size_Generic: "Generic m = Some g \<Longrightarrow> size g < size m"
  by (cases m) auto

lemma size_Simplify: "Simplify m = Some g \<Longrightarrow> size g < size m"
  by (cases m) auto

lemma size_Elem_RStruct:
  "RStruct tn pk fs = (case Elem r of None \<Rightarrow> RInvalid | Some x \<Rightarrow> ValueOf x)
   \<Longrightarrow> size_list size fs < size r"
  by (cases r) (auto split: option.splits dest: size_ValueOf_RStruct[OF sym])

lemma size_Elem_RSlice:
  "RSlice i nl xs = (case Elem r of None \<Rightarrow> RInvalid | Some x \<Rightarrow> ValueOf x)
   \<Longrightarrow> size_list size xs < size r"
  by (cases r) (auto split: option.splits dest: size_ValueOf_RSlice[OF sym])

lemma size_Elem_RMap:
  "RMap i nl kvs = (case Elem r of None \<Rightarrow> RInvalid | Some x \<Rightarrow> ValueOf x)
   \<Longrightarrow> size_list (size_prod (\<lambda>x. 0) size) kvs < size r"
  by (cases r) (auto split: option.splits dest: size_ValueOf_RMap[OF sym])

lemma le_size_lookup:
  "a \<le> size (lookup n k) \<Longrightarrow> a \<le> size_list (size_prod (\<lambda>x. 0) size) n"
  using size_lookup[of n k] by simp

lemma size_lookup_twice: "2 * size (lookup n k) < Suc (2 * size_list (size_prod (\<lambda>x. 0) size) n)"
  using size_lookup[of n k] by simp

lemma size_Decomposed_twice:
  "2 * size (Decomposed m) < Suc (2 * size m + y)" "2 * size (Decomposed m) < Suc (2 * size m)"
  using size_Decomposed[of m] by simp_all

termination emit
  by (relation "measures [\<lambda>(wr, c). call_weight c, \<lambda>(wr, c). call_rank c]")
     (auto simp: length_sort_Strings length_sort_Slice view_def size_lookup_twice
        size_Decomposed_twice
      dest!: size_ValueOf_RStruct size_ValueOf_RSlice size_ValueOf_RMap size_field_target
        size_map_elem size_Elem_RStruct size_Elem_RSlice size_Elem_RMap size_Generic
        size_Simplify le_size_lookup
      split: if_splits)

subsection \<open>The functions of the source, by name\<close>

definition appendJSON :: "Writer \<Rightarrow> gval \<Rightarrow> int \<Rightarrow> res" where
  "appendJSON wr data depth = emit wr (c_appendJSON data depth)"

definition appendDefault :: "Writer \<Rightarrow> meta \<Rightarrow> rvalue \<Rightarrow> int \<Rightarrow> res" where
  "appendDefault wr m r depth = emit wr (c_appendDefault m r depth)"

definition appendArray :: "Writer \<Rightarrow> gval list \<Rightarrow> int \<Rightarrow> res" where
  "appendArray wr n depth = emit wr (c_appendArray n depth)"

definition appendObject :: "Writer \<Rightarrow> (string \<times> gval) list \<Rightarrow> int \<Rightarrow> res" where
  "appendObject wr n depth = emit wr (c_appendObject n depth)"

definition appendSortObject :: "Writer \<Rightarrow> (string \<times> gval) list \<Rightarrow> int \<Rightarrow> res" where
  "appendSortObject wr n depth = emit wr (c_appendSortObject n depth)"

definition appendStruct :: "Writer \<Rightarrow> string \<Rightarrow> string \<Rightarrow> field list \<Rightarrow> int \<Rightarrow> res" where
  "appendStruct wr tn pk flds depth = emit wr (c_appendStruct tn pk flds depth)"

definition appendSlice :: "Writer \<Rightarrow> bool \<Rightarrow> gval list \<Rightarrow> int \<Rightarrow> res" where
  "appendSlice wr ifc n depth = emit wr (c_appendSlice ifc n depth)"

definition appendMap :: "Writer \<Rightarrow> bool \<Rightarrow> (string \<times> gval) list \<Rightarrow> int \<Rightarrow> res" where
  "appendMap wr ifc n depth = emit wr (c_appendMap ifc n depth)"

text \<open>
  Modelled from the spec: tightDefault, tightArray, tightObject, tightSortObject and the
  tight emitters of reflected structs, slices and maps are outside src/.  They are the
  compact counterparts of the functions above (section 4.4: \<open>{"k":v,"k2":v2}\<close>, no
  spaces; \<open>{}\<close> when every entry is skipped; the same dispatch, key order, OmitNil rule
  and type entry).  Their equations are those of \<open>emit\<close> for the calls named here.
\<close>

definition tightDefault :: "Writer \<Rightarrow> meta \<Rightarrow> rvalue \<Rightarrow> int \<Rightarrow> res" where
  "tightDefault wr m r depth = emit wr (c_tightDefault m r depth)"

definition tightArray :: "Writer \<Rightarrow> gval list \<Rightarrow> int \<Rightarrow> res" where
  "tightArray wr n depth = emit wr (c_tightArray n depth)"

definition tightObject :: "Writer \<Rightarrow> (string \<times> gval) list \<Rightarrow> int \<Rightarrow> res" where
  "tightObject wr n depth = emit wr (c_tightObject n depth)"

definition tightSortObject :: "Writer \<Rightarrow> (string \<times> gval) list \<Rightarrow> int \<Rightarrow> res" where
  "tightSortObject wr n depth = emit wr (c_tightSortObject n depth)"

subsection \<open>MustJSON, JSON, MustWrite and Write\<close>

text \<open>
  The statements that MustJSON and MustWrite share (lines 50 to 60 and 101 to 114): a
  non-positive InitSize becomes 256, the buffer is emptied (both branches give a buffer of
  length zero; the capacity is not modelled) and findex is set once.
\<close>

definition default_InitSize :: "Writer \<Rightarrow> Writer" where
  "default_InitSize wr =
     (if InitSize (opts wr) \<le> 0 then wr\<lparr>opts := (opts wr)\<lparr>InitSize := 256\<rparr>\<rparr> else wr)"

definition default_WriteLimit :: "Writer \<Rightarrow> Writer" where
  "default_WriteLimit wr =
     (if WriteLimit (opts wr) \<le> 0 then wr\<lparr>opts := (opts wr)\<lparr>WriteLimit := 1024\<rparr>\<rparr> else wr)"

definition set_findex :: "Writer \<Rightarrow> Writer" where
  "set_findex wr = (if findex wr = 0 then wr\<lparr>findex := FieldsIndex (opts wr)\<rparr> else wr)"

text \<open>
  MustJSON (lines 48 to 81): the statements before the call of appendJSON, then the call.
  On a normal return the bytes returned are the buffer of the Writer returned.
\<close>

definition MustJSON_setup :: "Writer \<Rightarrow> Writer" where
  "MustJSON_setup wr =
     (let wr = wr\<lparr>w := None\<rparr>;
          wr = default_InitSize wr;
          wr = wr\<lparr>buf := []\<rparr>;
          wr = set_findex wr
      in if Tab (opts wr) \<or> 0 < Indent (opts wr) then
           wr\<lparr>appendArray_field := fn_appendArray,
              appendObject_field :=
                (if Sort (opts wr) then fn_appendSortObject else fn_appendObject),
              appendDefault_field := fn_appendDefault\<rparr>
         else
           wr\<lparr>appendArray_field := fn_tightArray,
              appendObject_field :=
                (if Sort (opts wr) then fn_tightSortObject else fn_tightObject),
              appendDefault_field := fn_tightDefault\<rparr>)"

definition MustJSON :: "Writer \<Rightarrow> gval \<Rightarrow> res" where
  "MustJSON wr data = appendJSON (MustJSON_setup wr) data 0"

text \<open>
  JSON (lines 37 to 44): the deferred function recovers from any panic and empties the
  buffer; the result is then the zero value of string.
\<close>

definition JSON :: "Writer \<Rightarrow> gval \<Rightarrow> string \<times> Writer" where
  "JSON wr data =
     (case MustJSON wr data of
        Ok wr' \<Rightarrow> (buf wr', wr')
      | Panicked r wr' \<Rightarrow> ('''', wr'\<lparr>buf := []\<rparr>))"

text \<open>
  MustWrite (lines 99 to 134): the statements before the encoding, the encoding, and the
  final write of the buffer to the sink.  colorJSON is outside src/ and is passed as an
  argument; the sink \<open>w\<close> may be nil (\<open>None\<close>), and then the final Write panics.
\<close>

definition MustWrite_setup :: "Writer \<Rightarrow> sink option \<Rightarrow> Writer" where
  "MustWrite_setup wr snk =
     (let wr = wr\<lparr>w := snk\<rparr>;
          wr = default_InitSize wr;
          wr = default_WriteLimit wr;
          wr = wr\<lparr>buf := []\<rparr>
      in set_findex wr)"

definition MustWrite_fields :: "Writer \<Rightarrow> Writer" where
  "MustWrite_fields wr =
     (if Tab (opts wr) \<or> 0 < Indent (opts wr) then
        wr\<lparr>appendArray_field := fn_appendArray,
           appendObject_field := fn_appendObject,
           appendDefault_field := fn_appendDefault\<rparr>
      else
        wr\<lparr>appendArray_field := fn_tightArray,
           appendObject_field := fn_tightObject,
           appendDefault_field := fn_tightDefault\<rparr>)"

definition final_Write :: "Writer \<Rightarrow> res" where
  "final_Write wr =
     (if 0 < length (buf wr) then
        (case w wr of
           None \<Rightarrow> Panicked NilFunction wr
         | Some s \<Rightarrow>
             (case sink_Write s (buf wr) of
                None \<Rightarrow> Panicked SinkError wr
              | Some s' \<Rightarrow> Ok (wr\<lparr>w := Some s'\<rparr>)))
      else Ok wr)"

definition MustWrite ::
  "(Writer \<Rightarrow> gval \<Rightarrow> int \<Rightarrow> res) \<Rightarrow> Writer \<Rightarrow> sink option \<Rightarrow> gval \<Rightarrow> res" where
  "MustWrite colorJSON wr snk data =
     andthen
       (if Color (opts (MustWrite_setup wr snk)) then colorJSON (MustWrite_setup wr snk) data 0
        else appendJSON (MustWrite_fields (MustWrite_setup wr snk)) data 0)
       final_Write"

text \<open>Write (lines 84 to 95): a panic of MustWrite is recovered and returned as the error.\<close>

definition Write ::
  "(Writer \<Rightarrow> gval \<Rightarrow> int \<Rightarrow> res) \<Rightarrow> Writer \<Rightarrow> sink option \<Rightarrow> gval \<Rightarrow> error option \<times> Writer" where
  "Write colorJSON wr snk data =
     (case MustWrite colorJSON wr snk data of
        Ok wr' \<Rightarrow> (None, wr')
      | Panicked r wr' \<Rightarrow> (Some r, wr'\<lparr>buf := []\<rparr>))"

text \<open>The zero Options and the zero Writer, from which the concrete runs start.\<close>

definition Options0 :: "'v Options" where
  "Options0 = \<lparr>Indent = 0, Tab = False, Sort = False, OmitNil = False, InitSize = 0,
     WriteLimit = 0, TimeFormat = '''', TimeWrap = '''', TimeMap = False, CreateKey = '''',
     NoReflect = False, FullTypePath = False, Color = False, HTMLUnsafe = False,
     UseTags = False, KeyExact = False, NestEmbed = False, Converter = None\<rparr>"

definition Writer0 :: Writer where
  "Writer0 = \<lparr>opts = Options0, buf = [], w = None, findex = 0, strict = False,
     appendArray_field = nil_array_fn, appendObject_field = nil_object_fn,
     appendDefault_field = nil_default_fn\<rparr>"

text \<open>A value of type \<open>map[string]int\<close>, which only reflection can read.\<close>

definition plain_meta :: "string \<Rightarrow> string \<Rightarrow> meta" where
  "plain_meta v t = Meta None None v t GNil"

definition map_ab :: gval where
  "map_ab = GOther (plain_meta ''map[a:1 b:2]'' ''map[string]int'')
              (RMap False False [(''a'', GInt 1), (''b'', GInt 2)])"

subsection \<open>Observing the result of a call\<close>

text \<open>The Writer after a call, returned or left behind by a panic.\<close>

definition writer_of :: "res \<Rightarrow> Writer" where
  "writer_of r = (case r of Ok wr \<Rightarrow> wr | Panicked e wr \<Rightarrow> wr)"

definition panicked :: "res \<Rightarrow> bool" where
  "panicked r = (case r of Ok wr \<Rightarrow> False | Panicked e wr \<Rightarrow> True)"

text \<open>The bytes that MustJSON returns: the buffer, when the call returns.\<close>

definition result_bytes :: "res \<Rightarrow> string option" where
  "result_bytes r = (case r of Ok wr \<Rightarrow> Some (buf wr) | Panicked e wr \<Rightarrow> None)"

text \<open>The text that strconv prints for a float that is no number.\<close>

definition is_Finite :: "gofloat \<Rightarrow> bool" where
  "is_Finite f = (case f of Finite s \<Rightarrow> True | _ \<Rightarrow> False)"

definition nonfinite_text :: "gofloat \<Rightarrow> string" where
  "nonfinite_text f = (case f of NaN \<Rightarrow> ''NaN'' | PosInf \<Rightarrow> ''+Inf'' | NegInf \<Rightarrow> ''-Inf''
                       | Finite s \<Rightarrow> s)"

text \<open>
  What MustJSON and MustWrite leave in the Options of the Writer: a non-positive InitSize
  has become 256 and, in MustWrite, a non-positive WriteLimit 1024.
\<close>

definition with_InitSize :: "'v Options \<Rightarrow> 'v Options" where
  "with_InitSize opt = (if InitSize opt \<le> 0 then opt\<lparr>InitSize := 256\<rparr> else opt)"

definition with_WriteLimit :: "'v Options \<Rightarrow> 'v Options" where
  "with_WriteLimit opt = (if WriteLimit opt \<le> 0 then opt\<lparr>WriteLimit := 1024\<rparr> else opt)"

text \<open>Writers and values for the concrete runs.\<close>

definition sorting_Writer :: Writer where
  "sorting_Writer = Writer0\<lparr>opts := Options0\<lparr>Sort := True, Indent := 2\<rparr>\<rparr>"

definition seconds_Writer :: Writer where
  "seconds_Writer = Writer0\<lparr>opts := Options0\<lparr>TimeFormat := ''second''\<rparr>\<rparr>"

definition strict_Writer :: Writer where
  "strict_Writer = Writer0\<lparr>opts := Options0\<lparr>NoReflect := True, Indent := 1\<rparr>, strict := True\<rparr>"

definition timemap_Writer :: Writer where
  "timemap_Writer = Writer0\<lparr>opts := Options0\<lparr>TimeMap := True, CreateKey := ''<''\<rparr>\<rparr>"

definition sink0 :: sink where
  "sink0 = \<lparr>written = [], accepts = 1\<rparr>"

text \<open>An instant given by its nanoseconds, for runs in which no layout is used.\<close>

definition instant :: "int64 \<Rightarrow> gotime" where
  "instant n = Time n (\<lambda>layout. layout)"

text \<open>
  A byte string is free of the characters that the escaping for HTML removes: it has none of
  \<open><\<close>, \<open>>\<close> and \<open>&\<close> and nowhere the UTF-8 bytes of U+2028 or U+2029.
\<close>

definition html_safe :: "string \<Rightarrow> bool" where
  "html_safe s =
     (CHR ''<'' \<notin> set s \<and> CHR ''>'' \<notin> set s \<and> CHR ''&'' \<notin> set s
      \<and> \<not> sublist [CHR 0xE2, CHR 0x80, CHR 0xA8] s
      \<and> \<not> sublist [CHR 0xE2, CHR 0x80, CHR 0xA9] s)"

text \<open>
  The part of a Writer that the emitters only read: everything but the buffer and the sink.
\<close>

definition config :: "Writer \<Rightarrow> Writer" where
  "config wr = wr\<lparr>buf := [], w := None\<rparr>"

section \<open>alt: Decompose and Alter (src/unnamed/part_000)\<close>

text \<open>
  Modelled from the spec: the values that Decompose takes and returns.  The cases are those
  of the value model (section 3), a record of a user-defined type, with the result of its
  Simplify or Generic hook when it has one, the name and package path of its type and its
  exported fields under their wire names, and a value of an unhandled kind, given by its
  printed form.
\<close>

datatype aval =
    ANull
  | ABool bool
  | AInt int64
  | AUint "64 word"
  | AFloat gofloat
  | AString string
  | ATime gotime
  | AArray "aval list"
  | AObject "(string \<times> aval) list"
  | ARecord "aval option" string string "(string \<times> aval) list"
  | AUnhandled string


record alt_vars =
  DefaultOptions :: "aval Options"
  BrightOptions :: "aval Options"
  GoOptions :: "aval Options"
  HTMLOptions :: "aval Options"




text \<open>
  Modelled from the spec: the functions \<open>decompose\<close> and \<open>alter\<close> that Decompose and
  Alter end with are outside src/.  By section 4.2 a primitive and a time are returned as
  they are, a sequence and a mapping are rebuilt from their decomposed parts, a mapping
  leaves out the entries whose decomposed value is null when OmitNil is set, a record with a
  hook is replaced by the decomposed result of the hook, any other record becomes the
  mapping of its fields, with the entry \<open>CreateKey: typeName\<close> first when CreateKey is not
  empty (the name is qualified when FullTypePath is set), and an unhandled kind becomes
  its printed form.  Alter returns the same value (it differs in the storage it shares with
  its argument, which is not modelled).
\<close>

definition is_ANull :: "aval \<Rightarrow> bool" where
  "is_ANull v = (case v of ANull \<Rightarrow> True | _ \<Rightarrow> False)"

definition omit_nil :: "'v Options \<Rightarrow> (string \<times> aval) list \<Rightarrow> (string \<times> aval) list" where
  "omit_nil opt kvs = (if OmitNil opt then filter (\<lambda>kv. \<not> is_ANull (snd kv)) kvs else kvs)"

definition type_tag :: "'v Options \<Rightarrow> string \<Rightarrow> string \<Rightarrow> (string \<times> aval) list" where
  "type_tag opt tn pk =
     (if CreateKey opt \<noteq> '''' then
        [(CreateKey opt, AString (if FullTypePath opt then pk @ ''/'' @ tn else tn))]
      else [])"

fun decompose :: "aval \<Rightarrow> aval Options \<Rightarrow> aval" where
  "decompose (AArray xs) opt = AArray (map (\<lambda>x. decompose x opt) xs)"
| "decompose (AObject kvs) opt =
     AObject (omit_nil opt (map (\<lambda>kv. (fst kv, decompose (snd kv) opt)) kvs))"
| "decompose (ARecord (Some simple) tn pk flds) opt = decompose simple opt"
| "decompose (ARecord None tn pk flds) opt =
     AObject (type_tag opt tn pk @ map (\<lambda>kv. (fst kv, decompose (snd kv) opt)) flds)"
| "decompose (AUnhandled printed) opt = AString printed"
| "decompose v opt = v"


text \<open>
  Decompose and Alter (lines 56 to 80).  \<open>options\<close> is the variadic parameter, a list of
  pointers, of which \<open>None\<close> is nil; reading the Converter through a nil pointer panics.
\<close>

definition Convert :: "aval Options \<Rightarrow> aval \<Rightarrow> aval" where
  "Convert opt v = (case Converter opt of None \<Rightarrow> v | Some conv \<Rightarrow> conv v)"

definition Decompose :: "alt_vars \<Rightarrow> aval \<Rightarrow> aval Options option list \<Rightarrow> aval outcome" where
  "Decompose g v options =
     (let opt = Some (DefaultOptions g);
          opt = (if 0 < length options then options ! 0 else opt)
      in case opt of
           None \<Rightarrow> Panic
         | Some opt \<Rightarrow> Done (decompose (Convert opt v) opt))"


definition Dup :: "alt_vars \<Rightarrow> aval \<Rightarrow> aval Options option list \<Rightarrow> aval outcome" where
  "Dup g v options = Decompose g v options"


section \<open>Properties of gen.Builder\<close>

lemma inv_empty: "builder_inv empty_Builder"
  by (simp add: builder_inv_def empty_Builder_def)

lemma inv_Reset: "builder_inv (snd (Reset hb))"
  by (cases hb) (simp add: Reset_def builder_inv_def)

lemma array_marker_ok_append: "array_marker_ok stk s \<Longrightarrow> array_marker_ok (stk @ xs) s"
  by (auto simp: array_marker_ok_def nth_append)

lemma list_all_marker_append:
  "list_all (array_marker_ok stk) ss \<Longrightarrow> list_all (array_marker_ok (stk @ xs)) ss"
  by (induction ss) (auto simp: array_marker_ok_append)

lemma markers_below:
  "list_all (array_marker_ok stk) ss \<Longrightarrow> \<forall>s \<in> set ss. s < int (length stk)"
  by (induction ss) (auto simp: array_marker_ok_def)

lemma attach_top_Done: "stack b \<noteq> [] \<Longrightarrow> \<exists>h'. attach_top h b k v = Done h'"
  by (auto simp: attach_top_def split: node.splits option.splits)

lemma inv_Object:
  assumes "builder_inv b" "Object (h, b) key = Done (e, h', b')"
  shows "builder_inv b'"
  using assms
  by (auto simp: Object_def builder_inv_def new_object_def list_all_marker_append array_marker_ok_def
      split: if_splits outcome.splits prod.splits)

lemma sorted_wrt_snoc_marker:
  "sorted_wrt (<) (filter (\<lambda>s. 0 \<le> s) ss) \<Longrightarrow> \<forall>s \<in> set ss. s < m \<Longrightarrow>
   sorted_wrt (<) (filter (\<lambda>s. 0 \<le> s) ss @ [m])"
  by (auto simp: sorted_wrt_append)

lemma inv_Array:
  assumes "builder_inv b" "Array (h, b) key = Done (e, h', b')"
  shows "builder_inv b'"
proof -
  from assms(1) have below: "\<forall>s \<in> set (starts b). s < int (length (stack b))"
    using markers_below[of "stack b" "starts b"] by (simp add: builder_inv_def)
  then have below1: "\<forall>s \<in> set (starts b). s < 1 + int (length (stack b))"
    by fastforce
  show ?thesis using assms below below1
    by (auto simp: Array_def builder_inv_def Let_def EmptyArray_def sorted_wrt_append nth_append
        array_marker_ok_def list_all_iff
        split: if_splits) 
qed

lemma inv_Value:
  assumes "builder_inv b" "Value (h, b) v key = Done (e, h', b')"
  shows "builder_inv b'"
  using assms
  by (auto simp: Value_def builder_inv_def list_all_marker_append
      split: if_splits outcome.splits)

lemma collapse_cases:
  "collapse h stk a = (h', stk') \<Longrightarrow>
     (h' = h \<and> stk' = stk) \<or>
     (\<exists>k ad. 2 < length stk \<and> stk ! (length stk - 2) = KeyNode k
        \<and> stk ! (length stk - 3) = ObjectNode (Some ad)
        \<and> h' = map_store h ad k a \<and> stk' = take (length stk - 2) stk)"
  by (auto simp: collapse_def split: if_splits node.splits option.splits)

lemma inv_butlast_markers:
  assumes "builder_inv b" "starts b \<noteq> []" "0 \<le> last (starts b)"
  shows "\<forall>s \<in> set (butlast (starts b)). 0 \<le> s \<longrightarrow> s < last (starts b)"
proof -
  have eq: "starts b = butlast (starts b) @ [last (starts b)]" using assms(2) by simp
  from assms(1) have "sorted_wrt (<) (filter (\<lambda>s. 0 \<le> s) (starts b))"
    by (simp add: builder_inv_def)
  then have "sorted_wrt (<) (filter (\<lambda>s. 0 \<le> s) (butlast (starts b) @ [last (starts b)]))"
    using eq by simp
  with assms(3) show ?thesis by (auto simp: sorted_wrt_append)
qed

lemma inv_Pop:
  assumes inv: "builder_inv b" and p: "Pop (h, b) = Done (h', b')"
  shows "builder_inv b'"
proof (cases "starts b = []")
  case True
  with p inv show ?thesis by (simp add: Pop_def)
next
  case ne: False
  then have eq: "starts b = butlast (starts b) @ [last (starts b)]" by simp
  from inv ne have stk_ne: "stack b \<noteq> []" by (simp add: builder_inv_def)
  from inv have all: "list_all (array_marker_ok (stack b)) (starts b)"
    and srt: "sorted_wrt (<) (filter (\<lambda>s. 0 \<le> s) (starts b))"
    by (simp_all add: builder_inv_def)
  have all_bl: "list_all (array_marker_ok (stack b)) (butlast (starts b))"
    using all by (auto simp: list_all_iff dest: in_set_butlastD)
  have srt_bl: "sorted_wrt (<) (filter (\<lambda>s. 0 \<le> s) (butlast (starts b)))"
  proof -
    have "sorted_wrt (<) (filter (\<lambda>s. 0 \<le> s) (butlast (starts b) @ [last (starts b)]))"
      using srt eq by simp
    then show ?thesis by (simp add: sorted_wrt_append split: if_splits)
  qed
  show ?thesis
  proof (cases "0 \<le> last (starts b)")
    case False
    with p ne have "b' = b\<lparr>starts := butlast (starts b)\<rparr>" by (simp add: Pop_def Let_def)
    with stk_ne all_bl srt_bl show ?thesis by (simp add: builder_inv_def)
  next
    case arr: True
    define m where "m = nat (last (starts b))"
    have "array_marker_ok (stack b) (last (starts b))"
      using all ne by (simp add: list_all_iff)
    with arr have m_lt: "m < length (stack b)" and m_slot: "stack b ! m = EmptyArray"
      by (simp_all add: array_marker_ok_def m_def)
    define a where "a = ArrayNode (drop (Suc m) (stack b))"
    define stk where "stk = (take (Suc m) (stack b))[m := a]"
    have len_stk: "length stk = Suc m" using m_lt by (simp add: stk_def)
    have nat1: "nat (last (starts b) + 1) = Suc m" using arr by (simp add: m_def)
    have nat2: "nat (last (starts b) + 1 - 1) = m" by (simp add: m_def)
    have no_panic: "\<not> int (length (stack b)) < last (starts b) + 1"
      using m_lt arr by (simp add: m_def)
    obtain h2 stk2 where col: "collapse h stk a = (h2, stk2)" by (cases "collapse h stk a")
    have m_eq: "nat (last (starts b)) = m" by (simp add: m_def)
    have col': "collapse h ((take (Suc m) (stack b))[m := ArrayNode (drop (Suc m) (stack b))])
        (ArrayNode (drop (Suc m) (stack b))) = (h2, stk2)"
      using col by (simp add: stk_def a_def)
    from p ne arr no_panic have b': "b' = b\<lparr>stack := stk2, starts := butlast (starts b)\<rparr>"
      by (simp add: Pop_def Let_def nat1 m_eq col')
    have below: "\<forall>s \<in> set (butlast (starts b)). 0 \<le> s \<longrightarrow> s < last (starts b)"
      using inv_butlast_markers[OF inv ne arr] .
    have old: "\<forall>s \<in> set (butlast (starts b)). 0 \<le> s \<longrightarrow> nat s < m \<and> stack b ! nat s = EmptyArray"
    proof (intro ballI impI)
      fix s assume s: "s \<in> set (butlast (starts b))" and s0: "0 \<le> s"
      then have "s < last (starts b)" using below by simp
      then have "nat s < m" using s0 by (simp add: m_def)
      moreover have "array_marker_ok (stack b) s" using all_bl s by (simp add: list_all_iff)
      ultimately show "nat s < m \<and> stack b ! nat s = EmptyArray"
        using s0 by (simp add: array_marker_ok_def)
    qed
    have stk_nth: "\<And>i. i < m \<Longrightarrow> stk ! i = stack b ! i"
      by (simp add: stk_def)
    from collapse_cases[OF col] show ?thesis
    proof (elim disjE conjE exE)
      assume "h2 = h" "stk2 = stk"
      then have "stack b' = stk" using b' by simp
      moreover have "list_all (array_marker_ok stk) (butlast (starts b))"
        using old len_stk stk_nth by (auto simp: list_all_iff array_marker_ok_def)
      ultimately show ?thesis using b' srt_bl len_stk
        by (auto simp: builder_inv_def)
    next
      fix k ad
      assume big: "2 < length stk" and key: "stk ! (length stk - 2) = KeyNode k"
        and obj: "stk ! (length stk - 3) = ObjectNode (Some ad)"
        and stk2: "stk2 = take (length stk - 2) stk"
      from big len_stk have m2: "2 \<le> m" by simp
      have k1: "stack b ! (m - 1) = KeyNode k" using key len_stk m2 stk_nth[of "m - 1"] by simp
      have o1: "stack b ! (m - 2) = ObjectNode (Some ad)"
        using obj len_stk m2 stk_nth[of "m - 2"] by simp
      have stk2': "stk2 = take (m - 1) stk" using stk2 len_stk by simp
      have lt: "\<forall>s \<in> set (butlast (starts b)). 0 \<le> s \<longrightarrow> nat s < m - 2"
      proof (intro ballI impI)
        fix s assume s: "s \<in> set (butlast (starts b))" and s0: "0 \<le> s"
        with old have a1: "nat s < m" and a2: "stack b ! nat s = EmptyArray" by auto
        have "nat s \<noteq> m - 1" using a2 k1 by (auto simp: EmptyArray_def)
        moreover have "nat s \<noteq> m - 2" using a2 o1 by (auto simp: EmptyArray_def)
        ultimately show "nat s < m - 2" using a1 by arith
      qed
      have "list_all (array_marker_ok stk2) (butlast (starts b))"
        unfolding list_all_iff
      proof
        fix s assume s: "s \<in> set (butlast (starts b))"
        show "array_marker_ok stk2 s"
        proof (cases "0 \<le> s")
          case False then show ?thesis by (simp add: array_marker_ok_def)
        next
          case True
          with lt s old have l2: "nat s < m - 2" and e: "stack b ! nat s = EmptyArray" by auto
          from l2 have l1: "nat s < m - 1" and l0: "nat s < m" by arith+
          have "stk2 ! nat s = EmptyArray" using stk2' l1 stk_nth[OF l0] e by simp
          moreover have "nat s < length stk2" using stk2' len_stk l1 by simp
          ultimately show ?thesis by (simp add: array_marker_ok_def)
        qed
      qed
      moreover have "stk2 \<noteq> []" using stk2' len_stk m2 by auto
      ultimately show ?thesis using b' srt_bl by (simp add: builder_inv_def)
    qed
  qed
qed

lemma reachable_inv: "reachable hb \<Longrightarrow> builder_inv (snd hb)"
proof (induction rule: reachable.induct)
  case (zero h) show ?case by (simp add: inv_empty)
next
  case (reset hb) show ?case by (rule inv_Reset)
next
  case (object hb key e hb')
  then show ?case using inv_Object[of "snd hb" "fst hb" key e "fst hb'" "snd hb'"] by simp
next
  case (array hb key e hb')
  then show ?case using inv_Array[of "snd hb" "fst hb" key e "fst hb'" "snd hb'"] by simp
next
  case (val hb v key e hb')
  then show ?case using inv_Value[of "snd hb" "fst hb" v key e "fst hb'" "snd hb'"] by simp
next
  case (pop hb hb')
  then show ?case using inv_Pop[of "snd hb" "fst hb" "fst hb'" "snd hb'"] by simp
next
  case (heap_write h b h') then show ?case by simp
qed

lemma Object_error_iff:
  "builder_inv b \<Longrightarrow> \<not> panics (Object (h, b) key) \<and> (returns_error (Object (h, b) key) \<longleftrightarrow> key_misuse b key)"
  by (auto simp: Object_def panics_def returns_error_def key_misuse_def in_array_def in_object_def
      builder_inv_def attach_top_def new_object_def
      split: prod.splits outcome.splits node.splits option.splits)

lemma Array_error_iff:
  "\<not> panics (Array (h, b) key) \<and> (returns_error (Array (h, b) key) \<longleftrightarrow> key_misuse b key)"
  by (auto simp: Array_def panics_def returns_error_def key_misuse_def in_array_def in_object_def Let_def)

lemma Value_error_iff:
  "builder_inv b \<Longrightarrow> \<not> panics (Value (h, b) v key) \<and> (returns_error (Value (h, b) v key) \<longleftrightarrow> key_misuse b key)"
  by (auto simp: Value_def panics_def returns_error_def key_misuse_def in_array_def in_object_def
      builder_inv_def attach_top_def
      split: prod.splits outcome.splits node.splits option.splits)

text \<open>
  Claim C7, as amended.  On every state of a Builder, none of Object, Array and Value panics,
  and each returns an error exactly when the key is misused: a key is passed while no frame is
  open or the innermost open frame is an array, or no key is passed while the innermost open
  frame is an object.  (The claim as stated leaves out the first case: a key with no frame
  open is answered with an error too, by the guard \<open>len(b.starts) == 0\<close>.)
\<close>

theorem builder_key_rule:
  assumes "builder_inv b"
  shows "\<not> panics (Object (h, b) key) \<and> \<not> panics (Array (h, b) key) \<and> \<not> panics (Value (h, b) v key)
     \<and> (returns_error (Object (h, b) key) \<longleftrightarrow> key_misuse b key)
     \<and> (returns_error (Array (h, b) key) \<longleftrightarrow> key_misuse b key)
     \<and> (returns_error (Value (h, b) v key) \<longleftrightarrow> key_misuse b key)"
  using Object_error_iff[OF assms, of h key] Array_error_iff[of h b key]
    Value_error_iff[OF assms, of h v key] by blast

theorem builder_key_rule_witness:
  "builder_inv empty_Builder
   \<and> returns_error (Object (heap0, empty_Builder) [''k''])
   \<and> returns_error (Array (heap0, empty_Builder) [''k''])
   \<and> returns_error (Value (heap0, empty_Builder) (IntNode 1) [''k''])
   \<and> key_misuse empty_Builder [''k'']"
  using builder_key_rule[of empty_Builder heap0 "[''k'']" "IntNode 1"]
  by (simp add: builder_inv_def empty_Builder_def key_misuse_def)

text \<open>
  The claim as stated fails on the zero Builder: Object with a key returns an error although
  no frame is open, so the innermost open frame is neither an array nor an object.
\<close>

theorem builder_key_rule_counterexample:
  "\<not> (returns_error (Object (heap0, empty_Builder) [''k''])
        \<longleftrightarrow> ([''k''] \<noteq> [] \<and> in_array empty_Builder) \<or> ([''k''] = [] \<and> in_object empty_Builder))"
  by (simp add: Object_def returns_error_def in_array_def in_object_def empty_Builder_def
      new_object_def heap0_def)

lemma Pop_array_unfold:
  assumes "starts b \<noteq> []" "0 \<le> last (starts b)" "nat (last (starts b)) < length (stack b)"
  shows "Pop (h, b) =
     (let m = nat (last (starts b)); a = ArrayNode (drop (Suc m) (stack b));
          stk = take m (stack b) @ [a]
      in (case collapse h stk a of (h', stk') \<Rightarrow>
            Done (h', b\<lparr>stack := stk', starts := butlast (starts b)\<rparr>)))"
proof -
  define m where "m = nat (last (starts b))"
  have nat1: "nat (last (starts b) + 1) = Suc m" using assms(2) by (simp add: m_def)
  have m_eq: "nat (last (starts b)) = m" by (simp add: m_def)
  have no_panic: "\<not> int (length (stack b)) < last (starts b) + 1"
    using assms by simp
  have upd: "(take (Suc m) (stack b))[m := x] = take m (stack b) @ [x]" for x
    using assms(3) by (simp add: m_def take_Suc_conv_app_nth list_update_append)
  show ?thesis using assms(1,2) no_panic
    by (simp add: Pop_def Let_def nat1 m_eq upd)
qed

lemma collapse_keyed:
  "length pre = m \<Longrightarrow>
   collapse h (pre @ [a]) a =
     (case keyed_parent pre m of
        None \<Rightarrow> (h, pre @ [a])
      | Some (k, ad) \<Rightarrow> (map_store h ad k a, take (m - 1) pre))"
  by (auto simp: collapse_def keyed_parent_def nth_append
      split: node.splits option.splits)

lemma keyed_parent_take: "keyed_parent (take m stk) m = keyed_parent stk m"
proof (cases "2 \<le> m")
  case True
  then have "take m stk ! (m - 1) = stk ! (m - 1)" "take m stk ! (m - 2) = stk ! (m - 2)"
    by simp_all
  then show ?thesis by (simp only: keyed_parent_def)
next
  case False
  then show ?thesis by (simp add: keyed_parent_def)
qed

lemma inv_marker_in_stack:
  "builder_inv b \<Longrightarrow> in_array b \<Longrightarrow> nat (last (starts b)) < length (stack b)"
proof -
  assume inv: "builder_inv b" and arr: "in_array b"
  then have "last (starts b) \<in> set (starts b)" by (simp add: in_array_def)
  with inv have "array_marker_ok (stack b) (last (starts b))"
    by (simp add: builder_inv_def list_all_iff)
  with arr show ?thesis by (simp add: array_marker_ok_def in_array_def)
qed

lemma Pop_array_result:
  assumes "builder_inv b" "in_array b"
  shows "let m = nat (last (starts b)); a = ArrayNode (drop (Suc m) (stack b)) in
     Pop (h, b) =
       (case keyed_parent (stack b) m of
          None \<Rightarrow> Done (h, b\<lparr>stack := take m (stack b) @ [a], starts := butlast (starts b)\<rparr>)
        | Some (k, ad) \<Rightarrow>
            Done (map_store h ad k a,
                  b\<lparr>stack := take (m - 1) (stack b), starts := butlast (starts b)\<rparr>))"
proof -
  define m where "m = nat (last (starts b))"
  have lt: "m < length (stack b)" using inv_marker_in_stack[OF assms] by (simp add: m_def)
  have len: "length (take m (stack b)) = m" using lt by simp
  have tk: "take (m - 1) (take m (stack b)) = take (m - 1) (stack b)" by (simp add: min_def)
  from assms(2) have ne: "starts b \<noteq> []" and nn: "0 \<le> last (starts b)"
    by (simp_all add: in_array_def)
  show ?thesis
    using lt
    by (simp add: Pop_array_unfold[OF ne nn lt[unfolded m_def]] Let_def m_def[symmetric]
        collapse_keyed[OF len] keyed_parent_take tk
        split: option.splits)
qed

lemma map_store_cells: "cells (map_store h a k v) a k = Some v"
  by (simp add: map_store_def)

lemmas builder_run_defs = nested_calls_def Object_def Array_def Value_def Pop_def collapse_def
  attach_top_def new_object_def map_store_def heap0_def empty_Builder_def EmptyArray_def Let_def

text \<open>
  Claim C8, at the input where the code breaks it.  The calls Object(), Object("a"), Pop(),
  Array("k"), Value(1), Pop() on the zero Builder open the array with the key k inside the
  first object, whose frame is the only one open when the array is popped.  Pop of the object
  a has dropped its start marker but left the object on the stack, so the Key k sits above
  the closed child a and not above the parent: Pop stores the array in the child (the map at
  address 1) and the parent (the map at address 0, the result of the Builder) gets no member
  k.  No call returns an error or panics.
\<close>

theorem Pop_attaches_to_closed_child:
  "(case run nested_calls (heap0, empty_Builder) of
      Panic \<Rightarrow> False
    | Done (errors, h, b) \<Rightarrow>
        errors = [None, None, None, None, None, None]
        \<and> stack b = [ObjectNode (Some 0), ObjectNode (Some 1)] \<and> starts b = [-1]
        \<and> Result b = ObjectNode (Some 0)
        \<and> cells h 0 ''a'' = Some (ObjectNode (Some 1))
        \<and> cells h 0 ''k'' = None
        \<and> cells h 1 ''k'' = Some (ArrayNode [IntNode 1]))"
  by (simp add: builder_run_defs Result_def)

lemma Pop_no_panic: "builder_inv b \<Longrightarrow> \<exists>h' b'. Pop (h, b) = Done (h', b')"
proof (cases "in_array b")
  case True
  assume "builder_inv b"
  from Pop_array_result[OF this True, of h] show ?thesis
    by (auto simp: Let_def split: option.splits)
next
  case False
  then show ?thesis by (auto simp: Pop_def in_array_def Let_def)
qed

lemma PopAll_inv:
  "builder_inv (snd hb) \<Longrightarrow> \<exists>h' b'. PopAll hb = Done (h', b') \<and> starts b' = []"
proof (induction hb rule: PopAll.induct)
  case (1 hb)
  obtain h b where hb: "hb = (h, b)" by (cases hb)
  show ?case
  proof (cases "0 < length (starts (snd hb))")
    case False
    then show ?thesis using hb by (subst PopAll.simps) simp
  next
    case True
    from "1.prems" hb obtain h1 b1 where p: "Pop hb = Done (h1, b1)"
      using Pop_no_panic[of b h] by auto
    have "builder_inv b1" using inv_Pop[of b h h1 b1] "1.prems" hb p by simp
    then have "\<exists>h' b'. PopAll (h1, b1) = Done (h', b') \<and> starts b' = []"
      using "1.IH"[OF True p] by simp
    then show ?thesis using True p by (subst PopAll.simps) simp
  qed
qed

text \<open>
  Claim C9.  Pop on a Builder with no open frame returns the state unchanged; every Pop that
  returns on a Builder with an open frame removes exactly one start marker; and on every state
  of a Builder PopAll returns, with no frame left open.  (PopAll is a total function: its
  termination is proved with the number of start markers as measure.)
\<close>

theorem Pop_empty_PopAll_terminates:
  "(starts b = [] \<longrightarrow> Pop (h, b) = Done (h, b))
   \<and> (\<forall>h' b'. starts b \<noteq> [] \<and> Pop (h, b) = Done (h', b')
          \<longrightarrow> length (starts b') + 1 = length (starts b))
   \<and> (builder_inv b \<longrightarrow> (\<exists>h' b'. PopAll (h, b) = Done (h', b') \<and> starts b' = []))"
proof (intro conjI impI allI)
  assume "starts b = []" then show "Pop (h, b) = Done (h, b)" by (simp add: Pop_def)
next
  fix h' b' assume a: "starts b \<noteq> [] \<and> Pop (h, b) = Done (h', b')"
  then have "starts b' = butlast (starts b)"
    by (auto simp: Pop_def Let_def split: if_splits prod.splits)
  with a show "length (starts b') + 1 = length (starts b)" by simp
next
  assume "builder_inv b"
  then show "\<exists>h' b'. PopAll (h, b) = Done (h', b') \<and> starts b' = []"
    using PopAll_inv[of "(h, b)"] by simp
qed

theorem Pop_empty_PopAll_terminates_witness:
  "starts empty_Builder = [] \<and> Pop (heap0, empty_Builder) = Done (heap0, empty_Builder)
   \<and> starts builder1 \<noteq> [] \<and> builder_inv builder1
   \<and> (\<exists>h' b'. Pop (heap1, builder1) = Done (h', b') \<and> length (starts b') + 1 = length (starts builder1))
   \<and> (\<exists>h' b'. PopAll (heap1, builder1) = Done (h', b') \<and> starts b' = [])"
proof -
  have inv: "builder_inv builder1"
    by (simp add: builder_inv_def builder1_def array_marker_ok_def EmptyArray_def)
  have ne: "starts builder1 \<noteq> []" by (simp add: builder1_def)
  from Pop_no_panic[OF inv, of heap1] obtain h' b' where p: "Pop (heap1, builder1) = Done (h', b')"
    by blast
  show ?thesis
    using Pop_empty_PopAll_terminates[of empty_Builder heap0]
      Pop_empty_PopAll_terminates[of builder1 heap1] inv ne p
    by (simp add: empty_Builder_def)
qed

section \<open>Properties of gd.Time and oj.Writer\<close>

subsection \<open>Evaluation\<close>

lemma int_wrap_small: "- (2 ^ 63) \<le> i \<Longrightarrow> i < 2 ^ 63 \<Longrightarrow> int_wrap i = i"
  by (simp add: int_wrap_def signed_take_bit_int_eq_self)

lemma replicate_num: "replicate (numeral k) x = x # replicate (pred_numeral k) x"
  by (simp add: numeral_eq_Suc)

lemmas run_defs = replicate_num MustJSON_def MustJSON_setup_def appendJSON_def default_InitSize_def set_findex_def
  FieldsIndex_def Writer0_def Options0_def put_def put_key_def put_type_def indents_def slice_def
  spaces_def tabs_def int_wrap_small andthen_def flush_over_limit_def close_indented_def
  set_last_def unindent_def view_def map_elem_def field_target_def is_nil_def lookup_def
  sort_Slice_def sort_Strings_def Compare_def AppendJSONString_def escape_byte_def u00_def
  hex_char_def FormatInt_def FormatUint_def digits.simps digit_char_def Let_def map_ab_def
  plain_meta_def result_bytes_def writer_of_def panicked_def appendTime_def appendTime_open_def
  appendTime_value_def appendTime_close_def AppendFloat_def
  Sprintf_d_dot_09d_def Sprintf_09d_def zero_pad_def int64_div_def Second_def
  signed_divide_int_def word_sless_alt String_def buildString_def JSON_def
  sorting_Writer_def seconds_Writer_def strict_Writer_def timemap_Writer_def instant_def

subsection \<open>Key order under Sort\<close>

lemma insert_by_set: "set (insert_by lt x xs) = insert x (set xs)"
  by (induction xs) auto

lemma sort_Slice_set: "set (sort_Slice lt xs) = set xs"
  by (induction xs) (auto simp: sort_Slice_def insert_by_set)

lemma insert_by_ascending:
  "sorted_wrt (<) xs \<Longrightarrow> x \<notin> set xs \<Longrightarrow>
   sorted_wrt (<) (insert_by (\<lambda>a b. a < b) (x :: string) xs)"
  by (induction xs) (auto simp: insert_by_set)

lemma insert_by_descending:
  "sorted_wrt (\<lambda>a b. b < a) xs \<Longrightarrow> x \<notin> set xs \<Longrightarrow>
   sorted_wrt (\<lambda>a b. b < a) (insert_by (\<lambda>a b. 0 < Compare a b) (x :: string) xs)"
  by (induction xs) (auto simp: insert_by_set Compare_def)

text \<open>
  The keys that appendSortObject visits are in strictly ascending order, the keys that
  appendMap visits under Sort in strictly descending order.
\<close>

lemma sort_Strings_ascending: "distinct ks \<Longrightarrow> sorted_wrt (<) (sort_Strings ks)"
proof (induction ks)
  case Nil
  then show ?case by (simp add: sort_Strings_def sort_Slice_def)
next
  case (Cons k ks)
  then have "sorted_wrt (<) (sort_Slice (\<lambda>a b. a < b) ks)" "k \<notin> set (sort_Slice (\<lambda>a b. a < b) ks)"
    by (simp_all add: sort_Strings_def sort_Slice_set)
  then show ?case
    using insert_by_ascending[of "sort_Slice (\<lambda>a b. a < b) ks" k]
    by (simp add: sort_Strings_def sort_Slice_def)
qed

lemma appendMap_keys_descending:
  "distinct ks \<Longrightarrow> sorted_wrt (\<lambda>a b. b < a) (sort_Slice (\<lambda>a b. 0 < Compare a b) ks)"
proof (induction ks)
  case Nil
  then show ?case by (simp add: sort_Slice_def)
next
  case (Cons k ks)
  then have "sorted_wrt (\<lambda>a b. b < a) (sort_Slice (\<lambda>a b. 0 < Compare a b) ks)"
    "k \<notin> set (sort_Slice (\<lambda>a b. 0 < Compare a b) ks)"
    by (simp_all add: sort_Slice_set)
  then show ?case
    using insert_by_descending[of "sort_Slice (\<lambda>a b. 0 < Compare a b) ks" k]
    by (simp add: sort_Slice_def)
qed

text \<open>
  Claim C1, at the input where the code breaks it.  With Sort set and an indent of two,
  a \<open>map[string]interface{}\<close> with the keys b and a is written by appendSortObject with
  a before b, but the \<open>map[string]int\<close> with the keys a and b, which appendMap writes, comes
  out with b before a: appendMap sorts with \<open>0 < strings.Compare(keys[i], keys[j])\<close> as
  its less function, that is in descending order.
\<close>

theorem appendMap_Sort_descending:
  "result_bytes (MustJSON sorting_Writer (GObject [(''b'', GInt 2), (''a'', GInt 1)])) =
     Some [CHR ''{'', CHR 0x0A, CHR '' '', CHR '' '', CHR 0x22, CHR ''a'', CHR 0x22, CHR '':'',
           CHR '' '', CHR ''1'', CHR '','', CHR 0x0A, CHR '' '', CHR '' '', CHR 0x22, CHR ''b'',
           CHR 0x22, CHR '':'', CHR '' '', CHR ''2'', CHR 0x0A, CHR ''}'']
   \<and> result_bytes (MustJSON sorting_Writer map_ab) =
     Some [CHR ''{'', CHR 0x0A, CHR '' '', CHR '' '', CHR 0x22, CHR ''b'', CHR 0x22, CHR '':'',
           CHR '' '', CHR ''2'', CHR '','', CHR 0x0A, CHR '' '', CHR '' '', CHR 0x22, CHR ''a'',
           CHR 0x22, CHR '':'', CHR '' '', CHR ''1'', CHR 0x0A, CHR ''}'']"
  by (simp add: run_defs)

subsection \<open>Time in seconds\<close>

text \<open>
  Claim C2, at the inputs where the code breaks it.  For the instant 1.5 seconds before the
  epoch Writer.appendTime writes -1.500000000, but gd.Time writes -1.2500000000: it computes
  \<open>-nano-(secs*int64(time.Second))\<close> where appendTime has
  \<open>-(nano-(secs*int64(time.Second)))\<close>.  For the instant half a second before the epoch
  both write 0.500000000, without the sign, since \<open>secs\<close> is 0.
\<close>

theorem second_format_negative:
  "String '''' ''second'' (instant (- 1500000000)) = ''-1.2500000000''
   \<and> result_bytes (MustJSON seconds_Writer (GTime (instant (- 1500000000)))) = Some ''-1.500000000''
   \<and> String '''' ''second'' (instant (- 500000000)) = ''0.500000000''
   \<and> result_bytes (MustJSON seconds_Writer (GTime (instant (- 500000000)))) = Some ''0.500000000''"
  by (simp add: run_defs)

subsection \<open>Floats that are no numbers\<close>

text \<open>
  Claim C3, as amended.  For a float32 or float64 that is NaN or an infinity appendJSON
  appends the text that strconv prints, \<open>NaN\<close>, \<open>+Inf\<close> or \<open>-Inf\<close>, whatever the strict
  flag says; nothing but the write to the sink at its end can fail.
\<close>

theorem appendJSON_nonfinite:
  assumes "\<not> is_Finite f"
  shows "appendJSON wr (GFloat32 f) depth = flush_over_limit (put wr (nonfinite_text f))
       \<and> appendJSON wr (GFloat64 f) depth = flush_over_limit (put wr (nonfinite_text f))
       \<and> nonfinite_text f \<in> {''NaN'', ''+Inf'', ''-Inf''}"
  using assms
  by (cases f) (simp_all add: appendJSON_def andthen_def AppendFloat_def put_def
      nonfinite_text_def is_Finite_def)

theorem appendJSON_nonfinite_witness:
  "\<not> is_Finite NaN
   \<and> result_bytes (MustJSON (Writer0\<lparr>strict := True\<rparr>) (GFloat64 NaN)) = Some ''NaN''
   \<and> result_bytes (MustJSON Writer0 (GFloat32 NegInf)) = Some ''-Inf''"
  using appendJSON_nonfinite[of NaN] appendJSON_nonfinite[of NegInf]
  by (simp add: run_defs is_Finite_def nonfinite_text_def)

text \<open>
  The claim as stated fails: the zero Writer writes \<open>NaN\<close>, not \<open>null\<close>, and with strict
  set the call returns the same text instead of failing.
\<close>

theorem appendJSON_nonfinite_counterexample:
  "result_bytes (MustJSON Writer0 (GFloat64 NaN)) \<noteq> Some ''null''
   \<and> \<not> panicked (MustJSON (Writer0\<lparr>strict := True\<rparr>) (GFloat64 NaN))"
  by (simp add: run_defs)

subsection \<open>JSON and errors\<close>

text \<open>
  Claim C5.  When the encoding panics, JSON returns the empty string and leaves the buffer
  of the Writer empty; JSON itself returns normally, and its result has no error.
\<close>

theorem JSON_swallows_error:
  assumes "panicked (MustJSON wr data)"
  shows "fst (JSON wr data) = '''' \<and> buf (snd (JSON wr data)) = []
       \<and> snd (JSON wr data) = (writer_of (MustJSON wr data))\<lparr>buf := []\<rparr>"
  using assms by (simp add: JSON_def panicked_def writer_of_def split: res.splits)

theorem JSON_swallows_error_witness:
  "panicked (MustJSON strict_Writer (GArray [GInt 1, map_ab]))
   \<and> fst (JSON strict_Writer (GArray [GInt 1, map_ab])) = ''''
   \<and> buf (snd (JSON strict_Writer (GArray [GInt 1, map_ab]))) = []"
proof -
  have p: "panicked (MustJSON strict_Writer (GArray [GInt 1, map_ab]))"
    by (simp add: run_defs)
  from JSON_swallows_error[OF p] p show ?thesis by simp
qed

subsection \<open>Runs against claims C4 and C6\<close>

text \<open>
  Claim C4 as stated fails: MustJSON on the zero Writer, whose InitSize is 0, leaves
  InitSize 256 in the Options of the Writer.
\<close>

theorem MustJSON_InitSize_counterexample:
  "InitSize (opts (writer_of (MustJSON Writer0 GNil))) \<noteq> InitSize (opts Writer0)"
  by (simp add: run_defs)

text \<open>
  Claim C6 as stated fails: with HTMLUnsafe false, TimeMap set and \<open><\<close> as CreateKey,
  appendTime writes the CreateKey as it is.
\<close>

theorem appendTime_CreateKey_counterexample:
  "\<not> HTMLUnsafe (opts timemap_Writer)
   \<and> result_bytes (MustJSON timemap_Writer (GTime (instant 0))) =
       Some [CHR ''{'', CHR 0x22, CHR ''<'', CHR 0x22, CHR '':'', CHR 0x22, CHR ''T'', CHR ''i'',
             CHR ''m'', CHR ''e'', CHR 0x22, CHR '','', CHR 0x22, CHR ''v'', CHR ''a'', CHR ''l'',
             CHR ''u'', CHR ''e'', CHR 0x22, CHR '':'', CHR ''0'', CHR ''}'']
   \<and> \<not> html_safe [CHR ''{'', CHR 0x22, CHR ''<'', CHR 0x22, CHR '':'', CHR 0x22, CHR ''T'',
             CHR ''i'', CHR ''m'', CHR ''e'', CHR 0x22, CHR '','', CHR 0x22, CHR ''v'', CHR ''a'',
             CHR ''l'', CHR ''u'', CHR ''e'', CHR 0x22, CHR '':'', CHR ''0'', CHR ''}'']"
  by (simp add: run_defs html_safe_def)

subsection \<open>What the emitters leave alone\<close>

text \<open>
  The emitters change the buffer and the sink of the Writer and nothing else: its Options,
  findex, the strict flag and the three function fields are the same after every call,
  whether it returns or panics.
\<close>

lemma config_put [simp]: "config (put wr s) = config wr"
  by (simp add: config_def put_def)

lemma config_buf_update [simp]: "config (wr\<lparr>buf := b\<rparr>) = config wr"
  by (simp add: config_def)

lemma config_w_update [simp]: "config (wr\<lparr>w := s\<rparr>) = config wr"
  by (simp add: config_def)

lemma config_put_key [simp]: "config (put_key wr k sep) = config wr"
  by (simp add: put_key_def)

lemma config_put_type [simp]: "config (put_type wr sep tn pk) = config wr"
  by (simp add: put_type_def Let_def)

lemma config_appendTime_open [simp]: "config (appendTime_open wr) = config wr"
  by (simp add: appendTime_open_def Let_def)

lemma config_appendTime_value [simp]: "config (appendTime_value wr t) = config wr"
  by (simp add: appendTime_value_def Let_def)

lemma config_appendTime_close [simp]: "config (appendTime_close wr) = config wr"
  by (simp add: appendTime_close_def)

lemma config_appendTime [simp]: "config (appendTime wr t) = config wr"
  by (simp add: appendTime_def)

lemma opts_of_config: "opts (config wr) = opts wr"
  by (simp add: config_def)

lemma opts_config: "config wr' = config wr \<Longrightarrow> opts wr' = opts wr"
  using opts_of_config[of wr'] opts_of_config[of wr] by simp

lemma config_Ok [simp]: "config (writer_of (Ok wr)) = config wr"
  by (simp add: writer_of_def)

lemma config_Panicked [simp]: "config (writer_of (Panicked e wr)) = config wr"
  by (simp add: writer_of_def)

lemma config_andthen:
  "config (writer_of r) = X \<Longrightarrow> (\<And>wr'. r = Ok wr' \<Longrightarrow> config (writer_of (f wr')) = config wr')
   \<Longrightarrow> config (writer_of (andthen r f)) = X"
  by (cases r) (auto simp: andthen_def writer_of_def)

lemma config_set_last [simp]: "config (writer_of (set_last wr c)) = config wr"
  by (simp add: set_last_def)

lemma config_unindent [simp]: "config (writer_of (unindent wr cs)) = config wr"
  by (simp add: unindent_def)

lemma config_flush [simp]: "config (writer_of (flush_over_limit wr)) = config wr"
  by (simp add: flush_over_limit_def split: option.splits)

lemma config_close_indented [simp]: "config (writer_of (close_indented wr e is cl)) = config wr"
  by (simp add: close_indented_def set_last_def andthen_def)

lemma config_andthen_simp:
  "(\<And>wr'. config (writer_of (f wr')) = config wr') \<Longrightarrow>
   config (writer_of (andthen r f)) = config (writer_of r)"
  by (cases r) (simp_all add: andthen_def writer_of_def)

lemma emit_config: "config (writer_of (emit wr c)) = config wr"
  apply (induction wr c rule: emit.induct)
  subgoal
    apply (subst emit.simps)
    by (simp (no_asm_simp) del: emit.simps add: config_andthen_simp Let_def
       split: gval.split array_fn.split object_fn.split default_fn.split option.split
         rvalue.split field.split kind.split prod.split bool.split)
  subgoal
    apply (subst emit.simps)
    by (simp (no_asm_simp) del: emit.simps add: config_andthen_simp Let_def
       split: gval.split array_fn.split object_fn.split default_fn.split option.split
         rvalue.split field.split kind.split prod.split bool.split)
  subgoal
    apply (subst emit.simps)
    by (simp (no_asm_simp) del: emit.simps add: config_andthen_simp Let_def
       split: gval.split array_fn.split object_fn.split default_fn.split option.split
         rvalue.split field.split kind.split prod.split bool.split)
  subgoal
    apply (subst emit.simps)
    by (simp (no_asm_simp) del: emit.simps add: config_andthen_simp Let_def
       split: gval.split array_fn.split object_fn.split default_fn.split option.split
         rvalue.split field.split kind.split prod.split bool.split)
  subgoal
    apply (subst emit.simps)
    by (simp (no_asm_simp) del: emit.simps add: config_andthen_simp Let_def
       split: gval.split array_fn.split object_fn.split default_fn.split option.split
         rvalue.split field.split kind.split prod.split bool.split)
  subgoal
    apply (subst emit.simps)
    by (simp (no_asm_simp) del: emit.simps add: config_andthen_simp Let_def
       split: gval.split array_fn.split object_fn.split default_fn.split option.split
         rvalue.split field.split kind.split prod.split bool.split)
  subgoal
    apply (subst emit.simps)
    by (simp (no_asm_simp) del: emit.simps add: config_andthen_simp Let_def
       split: gval.split array_fn.split object_fn.split default_fn.split option.split
         rvalue.split field.split kind.split prod.split bool.split)
  subgoal
    apply (subst emit.simps)
    by (simp (no_asm_simp) del: emit.simps add: config_andthen_simp Let_def
       split: gval.split array_fn.split object_fn.split default_fn.split option.split
         rvalue.split field.split kind.split prod.split bool.split)
  subgoal
    apply (subst emit.simps)
    by (simp (no_asm_simp) del: emit.simps add: config_andthen_simp Let_def
       split: gval.split array_fn.split object_fn.split default_fn.split option.split
         rvalue.split field.split kind.split prod.split bool.split)
  subgoal
    apply (subst emit.simps)
    by (simp (no_asm_simp) del: emit.simps add: config_andthen_simp Let_def
       split: gval.split array_fn.split object_fn.split default_fn.split option.split
         rvalue.split field.split kind.split prod.split bool.split)
  subgoal
    apply (subst emit.simps)
    by (simp (no_asm_simp) del: emit.simps add: config_andthen_simp Let_def
       split: gval.split array_fn.split object_fn.split default_fn.split option.split
         rvalue.split field.split kind.split prod.split bool.split)
  subgoal
    apply (subst emit.simps)
    by (simp (no_asm_simp) del: emit.simps add: config_andthen_simp Let_def
       split: gval.split array_fn.split object_fn.split default_fn.split option.split
         rvalue.split field.split kind.split prod.split bool.split)
  subgoal
    apply (subst emit.simps)
    by (simp (no_asm_simp) del: emit.simps add: config_andthen_simp Let_def
       split: gval.split array_fn.split object_fn.split default_fn.split option.split
         rvalue.split field.split kind.split prod.split bool.split)
  subgoal for wr isEmpty indented fi rest cs "is" d2
    apply (subst emit.simps)
    apply (cases fi)
      apply (simp_all (no_asm_simp) del: emit.simps add: Let_def)[2]
    subgoal for out k v
      apply (cases "field_target k v")
       apply (simp (no_asm_simp) del: emit.simps add: Let_def config_andthen_simp)
      subgoal for kv
        apply (cases kv)
        subgoal for kind v'
          apply (cases kind; cases "ValueOf v'")
          apply (simp_all (no_asm_simp) del: emit.simps add: Let_def config_andthen_simp)
          done
        done
      done
    done
  subgoal
    apply (subst emit.simps)
    by (simp (no_asm_simp) del: emit.simps add: config_andthen_simp Let_def
       split: gval.split array_fn.split object_fn.split default_fn.split option.split
         rvalue.split field.split kind.split prod.split bool.split)
  subgoal
    apply (subst emit.simps)
    by (simp (no_asm_simp) del: emit.simps add: config_andthen_simp Let_def
       split: gval.split array_fn.split object_fn.split default_fn.split option.split
         rvalue.split field.split kind.split prod.split bool.split)
  subgoal
    apply (subst emit.simps)
    by (simp (no_asm_simp) del: emit.simps add: config_andthen_simp Let_def
       split: gval.split array_fn.split object_fn.split default_fn.split option.split
         rvalue.split field.split kind.split prod.split bool.split)
  subgoal
    apply (subst emit.simps)
    by (simp (no_asm_simp) del: emit.simps add: config_andthen_simp Let_def
       split: gval.split array_fn.split object_fn.split default_fn.split option.split
         rvalue.split field.split kind.split prod.split bool.split)
  subgoal
    apply (subst emit.simps)
    by (simp (no_asm_simp) del: emit.simps add: config_andthen_simp Let_def
       split: gval.split array_fn.split object_fn.split default_fn.split option.split
         rvalue.split field.split kind.split prod.split bool.split)
  subgoal for wr isEmpty ifc n kv keys cs "is" d2
    apply (subst emit.simps)
    apply (cases "map_elem (OmitNil (opts wr)) ifc (lookup n kv)")
     apply (simp (no_asm_simp) del: emit.simps)
    subgoal for el
      apply (cases el)
       apply (simp (no_asm_simp) del: emit.simps add: Let_def)
      subgoal for rm
        apply (cases "view ifc rm")
        apply (simp_all (no_asm_simp) del: emit.simps add: config_andthen_simp Let_def
          split: option.split bool.split)
        done
      done
    done
  subgoal
    apply (subst emit.simps)
    by (simp (no_asm_simp) del: emit.simps add: config_andthen_simp Let_def
       split: gval.split array_fn.split object_fn.split default_fn.split option.split
         rvalue.split field.split kind.split prod.split bool.split)
  subgoal
    apply (subst emit.simps)
    by (simp (no_asm_simp) del: emit.simps add: config_andthen_simp Let_def
       split: gval.split array_fn.split object_fn.split default_fn.split option.split
         rvalue.split field.split kind.split prod.split bool.split)
  subgoal
    apply (subst emit.simps)
    by (simp (no_asm_simp) del: emit.simps add: config_andthen_simp Let_def
       split: gval.split array_fn.split object_fn.split default_fn.split option.split
         rvalue.split field.split kind.split prod.split bool.split)
  subgoal
    apply (subst emit.simps)
    by (simp (no_asm_simp) del: emit.simps add: config_andthen_simp Let_def
       split: gval.split array_fn.split object_fn.split default_fn.split option.split
         rvalue.split field.split kind.split prod.split bool.split)
  subgoal
    apply (subst emit.simps)
    by (simp (no_asm_simp) del: emit.simps add: config_andthen_simp Let_def
       split: gval.split array_fn.split object_fn.split default_fn.split option.split
         rvalue.split field.split kind.split prod.split bool.split)
  subgoal
    apply (subst emit.simps)
    by (simp (no_asm_simp) del: emit.simps add: config_andthen_simp Let_def
       split: gval.split array_fn.split object_fn.split default_fn.split option.split
         rvalue.split field.split kind.split prod.split bool.split)
  subgoal
    apply (subst emit.simps)
    by (simp (no_asm_simp) del: emit.simps add: config_andthen_simp Let_def
       split: gval.split array_fn.split object_fn.split default_fn.split option.split
         rvalue.split field.split kind.split prod.split bool.split)
  subgoal
    apply (subst emit.simps)
    by (simp (no_asm_simp) del: emit.simps add: config_andthen_simp Let_def
       split: gval.split array_fn.split object_fn.split default_fn.split option.split
         rvalue.split field.split kind.split prod.split bool.split)
  subgoal
    apply (subst emit.simps)
    by (simp (no_asm_simp) del: emit.simps add: config_andthen_simp Let_def
       split: gval.split array_fn.split object_fn.split default_fn.split option.split
         rvalue.split field.split kind.split prod.split bool.split)
  subgoal
    apply (subst emit.simps)
    by (simp (no_asm_simp) del: emit.simps add: config_andthen_simp Let_def
       split: gval.split array_fn.split object_fn.split default_fn.split option.split
         rvalue.split field.split kind.split prod.split bool.split)
  subgoal
    apply (subst emit.simps)
    by (simp (no_asm_simp) del: emit.simps add: config_andthen_simp Let_def
       split: gval.split array_fn.split object_fn.split default_fn.split option.split
         rvalue.split field.split kind.split prod.split bool.split)
  subgoal
    apply (subst emit.simps)
    by (simp (no_asm_simp) del: emit.simps add: config_andthen_simp Let_def
       split: gval.split array_fn.split object_fn.split default_fn.split option.split
         rvalue.split field.split kind.split prod.split bool.split)
  subgoal for wr isEmpty fi rest d2
    apply (subst emit.simps)
    apply (cases fi)
      apply (simp_all (no_asm_simp) del: emit.simps add: Let_def)[2]
    subgoal for out k v
      apply (cases "field_target k v")
       apply (simp (no_asm_simp) del: emit.simps add: Let_def config_andthen_simp)
      subgoal for kv
        apply (cases kv)
        subgoal for kind v'
          apply (cases kind; cases "ValueOf v'")
          apply (simp_all (no_asm_simp) del: emit.simps add: Let_def config_andthen_simp)
          done
        done
      done
    done
  subgoal
    apply (subst emit.simps)
    by (simp (no_asm_simp) del: emit.simps add: config_andthen_simp Let_def
       split: gval.split array_fn.split object_fn.split default_fn.split option.split
         rvalue.split field.split kind.split prod.split bool.split)
  subgoal
    apply (subst emit.simps)
    by (simp (no_asm_simp) del: emit.simps add: config_andthen_simp Let_def
       split: gval.split array_fn.split object_fn.split default_fn.split option.split
         rvalue.split field.split kind.split prod.split bool.split)
  subgoal
    apply (subst emit.simps)
    by (simp (no_asm_simp) del: emit.simps add: config_andthen_simp Let_def
       split: gval.split array_fn.split object_fn.split default_fn.split option.split
         rvalue.split field.split kind.split prod.split bool.split)
  subgoal
    apply (subst emit.simps)
    by (simp (no_asm_simp) del: emit.simps add: config_andthen_simp Let_def
       split: gval.split array_fn.split object_fn.split default_fn.split option.split
         rvalue.split field.split kind.split prod.split bool.split)
  subgoal
    apply (subst emit.simps)
    by (simp (no_asm_simp) del: emit.simps add: config_andthen_simp Let_def
       split: gval.split array_fn.split object_fn.split default_fn.split option.split
         rvalue.split field.split kind.split prod.split bool.split)
  subgoal
    apply (subst emit.simps)
    by (simp del: emit.simps add: config_andthen_simp Let_def
       split: gval.split array_fn.split object_fn.split default_fn.split option.split
         rvalue.split field.split kind.split prod.split bool.split)
  done

lemma emit_opts: "opts (writer_of (emit wr c)) = opts wr"
  using emit_config[of wr c] by (rule opts_config)

lemma opts_MustJSON_setup: "opts (MustJSON_setup wr) = with_InitSize (opts wr)"
  by (simp add: MustJSON_setup_def default_InitSize_def set_findex_def with_InitSize_def Let_def)

lemma opts_MustWrite_setup:
  "opts (MustWrite_fields (MustWrite_setup wr snk)) = with_WriteLimit (with_InitSize (opts wr))"
  "opts (MustWrite_setup wr snk) = with_WriteLimit (with_InitSize (opts wr))"
  by (simp_all add: MustWrite_setup_def MustWrite_fields_def default_InitSize_def
      default_WriteLimit_def set_findex_def with_InitSize_def with_WriteLimit_def Let_def)

lemma opts_final_Write: "opts (writer_of (final_Write wr)) = opts wr"
  by (simp add: final_Write_def writer_of_def split: option.splits)

lemma opts_andthen:
  "(\<And>wr'. opts (writer_of (f wr')) = opts wr') \<Longrightarrow>
   opts (writer_of (andthen r f)) = opts (writer_of r)"
  by (cases r) (simp_all add: andthen_def writer_of_def)

text \<open>
  Claim C4, as amended.  After MustJSON the Options of the Writer are those before the call,
  except that a non-positive InitSize has become 256; after MustWrite they are those before
  the call, except that a non-positive InitSize has become 256 and a non-positive WriteLimit
  1024.  Every other field, and these two when they are positive, keep their values, whether
  the call returns or panics.  (When Color is set MustWrite runs colorJSON, which is outside
  src/: the statement then needs that colorJSON leaves the Options alone.)
\<close>

theorem encode_keeps_Options:
  assumes "Color (opts wr) \<Longrightarrow> \<forall>wr' v d. opts (writer_of (colorJSON wr' v d)) = opts wr'"
  shows "opts (writer_of (MustJSON wr data)) = with_InitSize (opts wr)
       \<and> opts (writer_of (MustWrite colorJSON wr snk data)) = with_WriteLimit (with_InitSize (opts wr))
       \<and> (0 < InitSize (opts wr) \<longrightarrow> opts (writer_of (MustJSON wr data)) = opts wr)
       \<and> (0 < InitSize (opts wr) \<and> 0 < WriteLimit (opts wr) \<longrightarrow>
            opts (writer_of (MustWrite colorJSON wr snk data)) = opts wr)"
proof -
  have j: "opts (writer_of (MustJSON wr data)) = with_InitSize (opts wr)"
    by (simp del: emit.simps add: MustJSON_def appendJSON_def emit_opts opts_MustJSON_setup)
  have color: "Color (opts (MustWrite_setup wr snk)) = Color (opts wr)"
    by (simp add: opts_MustWrite_setup with_InitSize_def with_WriteLimit_def)
  have w: "opts (writer_of (MustWrite colorJSON wr snk data)) = with_WriteLimit (with_InitSize (opts wr))"
  proof (cases "Color (opts wr)")
    case True
    with assms have "opts (writer_of (colorJSON (MustWrite_setup wr snk) data 0)) =
        opts (MustWrite_setup wr snk)" by blast
    with True color show ?thesis
      by (simp del: emit.simps add: MustWrite_def opts_andthen opts_final_Write
          opts_MustWrite_setup)
  next
    case False
    with color show ?thesis
      by (simp del: emit.simps add: MustWrite_def opts_andthen opts_final_Write appendJSON_def
          emit_opts opts_MustWrite_setup)
  qed
  from j w show ?thesis by (simp add: with_InitSize_def with_WriteLimit_def)
qed

theorem encode_keeps_Options_witness:
  "\<not> Color (opts Writer0)
   \<and> opts (writer_of (MustJSON Writer0 GNil)) = Options0\<lparr>InitSize := 256\<rparr>
   \<and> opts (writer_of (MustWrite (\<lambda>wr v d. Ok wr) Writer0 (Some sink0) GNil)) =
       Options0\<lparr>InitSize := 256, WriteLimit := 1024\<rparr>
   \<and> 0 < InitSize (opts (Writer0\<lparr>opts := Options0\<lparr>InitSize := 64, WriteLimit := 8\<rparr>\<rparr>))
   \<and> opts (writer_of (MustWrite (\<lambda>wr v d. Ok wr)
         (Writer0\<lparr>opts := Options0\<lparr>InitSize := 64, WriteLimit := 8\<rparr>\<rparr>) (Some sink0) GNil)) =
       Options0\<lparr>InitSize := 64, WriteLimit := 8\<rparr>"
  using encode_keeps_Options[of Writer0 "\<lambda>wr v d. Ok wr" GNil "Some sink0"]
    encode_keeps_Options[of "Writer0\<lparr>opts := Options0\<lparr>InitSize := 64, WriteLimit := 8\<rparr>\<rparr>"
      "\<lambda>wr v d. Ok wr" GNil "Some sink0"]
  by (simp add: Writer0_def Options0_def with_InitSize_def with_WriteLimit_def)

section \<open>Properties of alt.Decompose and alt.Alter\<close>





end
